theory Spec2Isabelle
  imports Complex_Main
begin

section \<open>Data model of the savings-plan simulator\<close>

text \<open>
  The development embeds \<^verbatim>\<open>SparplanSimulator_250819.py\<close> (class
  \<^verbatim>\<open>SparplanSimulator\<close>), the accrual-tax handler and the sale-tax formula of
  \<^verbatim>\<open>Gutachten.py\<close>, the January accrual-tax block of the script
  \<^verbatim>\<open>250720_final.py\<close>, and \<^verbatim>\<open>get_worst_3_years\<close> of
  \<^verbatim>\<open>monte_carlo_simulator.py\<close>.

  Python floats are modelled by the real numbers: rounding, infinities and NaN are outside
  the model. The instance attributes of the simulator are the fields of one record that
  every method takes and returns.
\<close>

subsection \<open>Calendar dates\<close>

datatype date = Date (d_year: int) (d_month: nat) (d_day: nat)

text \<open>Comparison of \<^verbatim>\<open>datetime.date\<close> values: lexicographic on year, month, day.\<close>

definition date_le :: "date \<Rightarrow> date \<Rightarrow> bool" where
  "date_le a b \<longleftrightarrow>
     d_year a < d_year b \<or>
     (d_year a = d_year b \<and>
        (d_month a < d_month b \<or> (d_month a = d_month b \<and> d_day a \<le> d_day b)))"

text \<open>\<^verbatim>\<open>datetime.date(2025, 1, 1) + relativedelta(months=month)\<close> for \<open>month \<ge> 0\<close>.\<close>

definition date_of_month :: "nat \<Rightarrow> date" where
  "date_of_month month = Date (2025 + int (month div 12)) (month mod 12 + 1) 1"

text \<open>The proleptic Gregorian ordinal of a date, as \<^verbatim>\<open>date.toordinal\<close> computes it.\<close>

definition is_leap :: "int \<Rightarrow> bool" where
  "is_leap y \<longleftrightarrow> y mod 4 = 0 \<and> (y mod 100 \<noteq> 0 \<or> y mod 400 = 0)"

definition days_before_year :: "int \<Rightarrow> int" where
  "days_before_year y = (y - 1) * 365 + (y - 1) div 4 - (y - 1) div 100 + (y - 1) div 400"

definition days_before_month :: "int \<Rightarrow> nat \<Rightarrow> int" where
  "days_before_month y m =
     [0, 31, 59, 90, 120, 151, 181, 212, 243, 273, 304, 334] ! (m - 1)
       + (if 2 < m \<and> is_leap y then 1 else 0)"

definition toordinal :: "date \<Rightarrow> int" where
  "toordinal d = days_before_year (d_year d) + days_before_month (d_year d) (d_month d)
                   + int (d_day d)"

text \<open>\<^verbatim>\<open>(a - b).days\<close>\<close>

definition days_between :: "date \<Rightarrow> date \<Rightarrow> int" where
  "days_between a b = toordinal a - toordinal b"

subsection \<open>Tranches, parameters and the simulator object\<close>

text \<open>
  One entry of \<^verbatim>\<open>self.portfolio\<close>. The dictionary key \<^verbatim>\<open>"value"\<close> is the
  field \<open>val\<close>.
\<close>

record lot =
  date :: date
  amount_invested :: real
  val :: real
  start_of_prev_year_value :: real
  vorabpauschalen_bereits_versteuert :: real

text \<open>
  The dataclass \<^verbatim>\<open>SparplanParameter\<close>. The last two fields are the attributes
  \<^verbatim>\<open>monthly_return\<close> and \<^verbatim>\<open>full_tax_rate\<close> that
  \<^verbatim>\<open>_initialisiere_simulation\<close> attaches to the object; they do not exist before that
  call and are read only after it.
\<close>

record SparplanParameter =
  label :: string
  versicherung_modus :: bool
  eintrittsalter :: int
  initial_investment :: real
  monthly_investment :: real
  laufzeit :: int
  beitragszahldauer :: int
  monthly_dynamik_rate :: real
  dynamik_turnus_monate :: int
  sonderzahlung_jahr :: real
  sonderzahlung_betrag :: real
  regel_sonderzahlung_betrag :: real
  regel_sonderzahlung_turnus_jahre :: int
  annual_withdrawal :: real
  entnahme_plan :: "(int \<times> real) list option"
  entnahme_modus :: string
  annual_return :: real
  ausgabeaufschlag :: real
  ruecknahmeabschlag :: real
  ter :: real
  serviceentgelt :: real
  stueckkosten :: real
  abschlusskosten_einmalig_prozent :: real
  abschlusskosten_monatlich_prozent :: real
  verrechnungsdauer_monate :: int
  verwaltungskosten_monatlich_prozent :: real
  guthabenkosten :: real
  abgeltungssteuer_rate :: real
  soli_zuschlag_on_abgeltungssteuer :: real
  kirchensteuer_on_abgeltungssteuer :: real
  persoenlicher_steuersatz :: real
  freistellungsauftrag_jahr :: real
  teilfreistellung :: real
  basiszins :: real
  rebalancing_rate :: real
  bewertungsdauer :: int
  inflation_rate :: real
  inflation_volatility :: real
  freistellungs_pauschbetrag_anpassung_rate :: real
  monthly_return :: real
  full_tax_rate :: real

text \<open>The cumulative cost and tax counters, nominal and inflation-adjusted.\<close>

record counters =
  ausgabeaufschlag_summe :: real
  ruecknahmeabschlag_summe :: real
  stueckkosten_summe :: real
  abschlusskosten_summe :: real
  verwaltungskosten_summe :: real
  guthabenkosten_summe :: real
  ter_summe :: real
  serviceentgelt_summe :: real
  kumulierte_entnahmen :: real
  total_tax_paid :: real
  total_withdrawal_tax_paid :: real
  ausgabeaufschlag_real_summe :: real
  ruecknahmeabschlag_real_summe :: real
  stueckkosten_real_summe :: real
  abschlusskosten_real_summe :: real
  verwaltungskosten_real_summe :: real
  guthabenkosten_real_summe :: real
  ter_real_summe :: real
  serviceentgelt_real_summe :: real
  kumulierte_entnahmen_real :: real
  total_tax_paid_real :: real
  total_withdrawal_tax_paid_real :: real

text \<open>A row of \<^verbatim>\<open>monatliche_kosten_logs\<close>: date, portfolio value and a copy of the counters.\<close>

record log_row =
  Datum :: date
  Depotwert :: real
  Depotwert_real :: real
  kum :: counters

text \<open>A row of \<^verbatim>\<open>rebalancing_log\<close>.\<close>

record rebalancing_row =
  rb_Datum :: date
  Bruttoverkauf :: real
  Steuer :: real
  Netto_reinvestiert :: real

text \<open>
  The attributes of a \<^verbatim>\<open>SparplanSimulator\<close> instance. \<open>self_monthly_investment\<close> is
  \<^verbatim>\<open>self.monthly_investment\<close> (the escalating contribution), as opposed to the
  parameter \<^verbatim>\<open>self.params.monthly_investment\<close>. \<open>monthly_inflation_rates\<close> holds the
  draws of \<^verbatim>\<open>np.random.normal\<close>, which the model receives as an input.
\<close>

record simulator = counters +
  params :: SparplanParameter
  dynamic_returns :: "real list option"
  portfolio :: "lot list"
  rebalancing_log :: "rebalancing_row list"
  monatliche_kosten_logs :: "log_row list"
  cashflows :: "real list"
  cashflow_dates :: "date list"
  real_cashflows :: "real list"
  freistellungs_topf :: real
  self_monthly_investment :: real
  abschlusskosten_rest :: real
  verwaltungskosten_rest :: real
  kumulierte_inflation_factor :: real
  monthly_inflation_rates :: "real list"

datatype py_error = ZeroDivisionError | IndexError

text \<open>A new tranche, as every deposit and reinvestment builds it.\<close>

definition new_lot :: "date \<Rightarrow> real \<Rightarrow> lot" where
  "new_lot d netto =
     \<lparr>date = d, amount_invested = netto, val = netto, start_of_prev_year_value = netto,
      vorabpauschalen_bereits_versteuert = 0\<rparr>"

definition depotwert_of :: "lot list \<Rightarrow> real" where
  "depotwert_of pf = sum_list (map val pf)"

section \<open>The simulator\<close>

subsection \<open>Construction\<close>

definition new_simulator :: "SparplanParameter \<Rightarrow> real list option \<Rightarrow> real list \<Rightarrow> simulator" where
  "new_simulator p dyn draws =
     \<lparr>ausgabeaufschlag_summe = 0, ruecknahmeabschlag_summe = 0, stueckkosten_summe = 0,
      abschlusskosten_summe = 0, verwaltungskosten_summe = 0, guthabenkosten_summe = 0,
      ter_summe = 0, serviceentgelt_summe = 0, kumulierte_entnahmen = 0, total_tax_paid = 0,
      total_withdrawal_tax_paid = 0,
      ausgabeaufschlag_real_summe = 0, ruecknahmeabschlag_real_summe = 0,
      stueckkosten_real_summe = 0, abschlusskosten_real_summe = 0,
      verwaltungskosten_real_summe = 0, guthabenkosten_real_summe = 0, ter_real_summe = 0,
      serviceentgelt_real_summe = 0, kumulierte_entnahmen_real = 0, total_tax_paid_real = 0,
      total_withdrawal_tax_paid_real = 0,
      params = p, dynamic_returns = dyn, portfolio = [], rebalancing_log = [],
      monatliche_kosten_logs = [], cashflows = [], cashflow_dates = [], real_cashflows = [],
      freistellungs_topf = freistellungsauftrag_jahr p,
      self_monthly_investment = monthly_investment p,
      abschlusskosten_rest = 0, verwaltungskosten_rest = 0, kumulierte_inflation_factor = 1,
      monthly_inflation_rates = draws\<rparr>"

subsection \<open>Initialisation\<close>

text \<open>
  \<^verbatim>\<open>_initialisiere_simulation\<close>. It writes to the parameter object: the two derived
  rates, and the cost fields that do not apply to the chosen mode are set to zero.
  \<^verbatim>\<open>(1 + annual_return) ** (1 / 12)\<close> is the real power \<open>powr\<close>; for
  \<open>annual_return < - 1\<close> Python leaves the real numbers (the result is complex), so the
  model is meaningful for \<open>annual_return \<ge> - 1\<close> only.
\<close>

definition initialisiere_simulation :: "simulator \<Rightarrow> simulator" where
  "initialisiere_simulation s =
     (let p0 = params s;
          p1 = p0\<lparr>monthly_return := (1 + annual_return p0) powr (1 / 12) - 1,
                  full_tax_rate := abgeltungssteuer_rate p0 *
                    (1 + soli_zuschlag_on_abgeltungssteuer p0
                       + kirchensteuer_on_abgeltungssteuer p0)\<rparr>;
          s1 = (if versicherung_modus p1 then
                  (let p2 = p1\<lparr>ausgabeaufschlag := 0, ruecknahmeabschlag := 0,
                               stueckkosten := 0\<rparr>
                   in s\<lparr>params := p2,
                        abschlusskosten_rest :=
                          (initial_investment p2 * abschlusskosten_einmalig_prozent p2)
                          + (monthly_investment p2 * real_of_int (beitragszahldauer p2) * 12)
                            * abschlusskosten_monatlich_prozent p2\<rparr>)
                else
                  s\<lparr>params := p1\<lparr>abschlusskosten_einmalig_prozent := 0,
                                   abschlusskosten_monatlich_prozent := 0,
                                   verwaltungskosten_monatlich_prozent := 0,
                                   guthabenkosten := 0\<rparr>\<rparr>);
          aufschlag = initial_investment (params s1) * ausgabeaufschlag (params s1);
          nettobetrag = initial_investment (params s1) - aufschlag;
          s2 = s1\<lparr>ausgabeaufschlag_summe := ausgabeaufschlag_summe s1 + aufschlag,
                  ausgabeaufschlag_real_summe :=
                    ausgabeaufschlag_real_summe s1 + aufschlag / kumulierte_inflation_factor s1,
                  cashflows := cashflows s1 @ [- initial_investment (params s1)],
                  real_cashflows := real_cashflows s1 @ [- initial_investment (params s1)],
                  cashflow_dates := cashflow_dates s1 @ [Date 2025 1 1]\<rparr>
      in if nettobetrag > 0 then
           s2\<lparr>portfolio := portfolio s2 @ [new_lot (Date 2025 1 1) nettobetrag]\<rparr>
         else s2)"

subsection \<open>Deposits\<close>

text \<open>The block of \<^verbatim>\<open>_handle_monthly_investment\<close> that books one extra payment.\<close>

definition sonderzahlung :: "real \<Rightarrow> date \<Rightarrow> simulator \<Rightarrow> simulator" where
  "sonderzahlung betrag current_date s =
     (let s1 = s\<lparr>cashflows := cashflows s @ [- betrag],
                 real_cashflows := real_cashflows s @ [- betrag / kumulierte_inflation_factor s],
                 cashflow_dates := cashflow_dates s @ [current_date]\<rparr>
      in if \<not> versicherung_modus (params s1) then
           (let aufschlag = betrag * ausgabeaufschlag (params s1);
                netto = betrag - aufschlag
            in s1\<lparr>ausgabeaufschlag_summe := ausgabeaufschlag_summe s1 + aufschlag,
                  ausgabeaufschlag_real_summe :=
                    ausgabeaufschlag_real_summe s1 + aufschlag / kumulierte_inflation_factor s1,
                  stueckkosten_summe := stueckkosten_summe s1 + stueckkosten (params s1),
                  stueckkosten_real_summe :=
                    stueckkosten_real_summe s1
                      + stueckkosten (params s1) / kumulierte_inflation_factor s1,
                  portfolio := portfolio s1 @ [new_lot current_date netto]\<rparr>)
         else
           (let netto = betrag
            in s1\<lparr>portfolio := portfolio s1 @ [new_lot current_date netto]\<rparr>))"

text \<open>The block that books the monthly contribution.\<close>

definition sparrate :: "date \<Rightarrow> simulator \<Rightarrow> simulator" where
  "sparrate current_date s =
     (let aufschlag = self_monthly_investment s * ausgabeaufschlag (params s);
          netto = self_monthly_investment s - aufschlag
      in s\<lparr>ausgabeaufschlag_summe := ausgabeaufschlag_summe s + aufschlag,
            ausgabeaufschlag_real_summe :=
              ausgabeaufschlag_real_summe s + aufschlag / kumulierte_inflation_factor s,
            cashflows := cashflows s @ [- self_monthly_investment s],
            real_cashflows :=
              real_cashflows s @ [- self_monthly_investment s / kumulierte_inflation_factor s],
            cashflow_dates := cashflow_dates s @ [current_date],
            portfolio := portfolio s @ [new_lot current_date netto]\<rparr>)"

text \<open>
  \<^verbatim>\<open>_handle_monthly_investment\<close>. \<^verbatim>\<open>month % dynamik_turnus_monate\<close> raises
  \<^verbatim>\<open>ZeroDivisionError\<close> for a zero interval as soon as \<open>month > 0\<close>.
\<close>

definition handle_monthly_investment :: "nat \<Rightarrow> date \<Rightarrow> simulator \<Rightarrow> py_error + simulator" where
  "handle_monthly_investment month current_date s =
     (if month > 0 \<and> dynamik_turnus_monate (params s) = 0 then Inl ZeroDivisionError
      else
        (let s1 = (if month > 0 \<and> int month mod dynamik_turnus_monate (params s) = 0 then
                     s\<lparr>self_monthly_investment :=
                         self_monthly_investment s * (1 + monthly_dynamik_rate (params s))\<rparr>
                   else s);
             is_einmalig = (real month = sonderzahlung_jahr (params s1) * 12);
             is_regelmaessig =
               (regel_sonderzahlung_turnus_jahre (params s1) > 0 \<and> month > 0 \<and>
                int month mod (regel_sonderzahlung_turnus_jahre (params s1) * 12) = 0);
             s2 = (if is_einmalig \<or> is_regelmaessig then
                     (let betrag = (if is_einmalig then sonderzahlung_betrag (params s1)
                                    else regel_sonderzahlung_betrag (params s1))
                      in if betrag > 0 then sonderzahlung betrag current_date s1 else s1)
                   else s1);
             s3 = (if int month < beitragszahldauer (params s2) * 12 then
                     sparrate current_date s2
                   else s2)
         in Inr s3))"

subsection \<open>Costs\<close>

text \<open>
  The loop that \<^verbatim>\<open>_handle_costs\<close> runs four times: every tranche bears the amount
  \<open>kosten\<close> in proportion to its share of \<open>depotwert\<close>.
\<close>

definition kosten_anteilig :: "real \<Rightarrow> real \<Rightarrow> lot list \<Rightarrow> lot list" where
  "kosten_anteilig kosten depotwert pf =
     map (\<lambda>entry. entry\<lparr>val := val entry - kosten * (val entry / depotwert)\<rparr>) pf"

text \<open>Annual flat fee, January only and depot mode only.\<close>

definition kosten_stueckkosten :: "date \<Rightarrow> real \<Rightarrow> simulator \<Rightarrow> simulator" where
  "kosten_stueckkosten current_date depotwert s =
     (if \<not> versicherung_modus (params s) \<and> d_month current_date = 1 then
        (if stueckkosten (params s) > 0 then
           s\<lparr>stueckkosten_summe := stueckkosten_summe s + stueckkosten (params s),
             stueckkosten_real_summe :=
               stueckkosten_real_summe s + stueckkosten (params s) / kumulierte_inflation_factor s,
             cashflows := cashflows s @ [- stueckkosten (params s)],
             real_cashflows :=
               real_cashflows s @ [- stueckkosten (params s) / kumulierte_inflation_factor s],
             cashflow_dates := cashflow_dates s @ [current_date],
             portfolio := (if depotwert > 0 then
                             kosten_anteilig (stueckkosten (params s)) depotwert (portfolio s)
                           else portfolio s)\<rparr>
         else s)
      else s)"

text \<open>Monthly costs on the portfolio value: expense ratio, service fee, policy fee.\<close>

definition kosten_monatlich :: "real \<Rightarrow> simulator \<Rightarrow> simulator" where
  "kosten_monatlich depotwert s =
     (if depotwert > 0 then
        (let fond_kosten = depotwert * ter (params s) / 12;
             service_kosten = depotwert * serviceentgelt (params s) / 12;
             guthaben_kosten = (if versicherung_modus (params s) then
                                  depotwert * guthabenkosten (params s) / 12
                                else 0);
             total_kosten = fond_kosten + service_kosten + guthaben_kosten;
             s1 = s\<lparr>portfolio := kosten_anteilig total_kosten depotwert (portfolio s),
                     ter_summe := ter_summe s + fond_kosten,
                     ter_real_summe := ter_real_summe s + fond_kosten / kumulierte_inflation_factor s,
                     serviceentgelt_summe := serviceentgelt_summe s + service_kosten,
                     serviceentgelt_real_summe :=
                       serviceentgelt_real_summe s + service_kosten / kumulierte_inflation_factor s\<rparr>
         in if versicherung_modus (params s1) then
              s1\<lparr>guthabenkosten_summe := guthabenkosten_summe s1 + guthaben_kosten,
                 guthabenkosten_real_summe :=
                   guthabenkosten_real_summe s1 + guthaben_kosten / kumulierte_inflation_factor s1\<rparr>
            else s1)
      else s)"

text \<open>Acquisition costs of the policy, spread over \<^verbatim>\<open>verrechnungsdauer_monate\<close>.\<close>

definition kosten_abschluss :: "nat \<Rightarrow> date \<Rightarrow> real \<Rightarrow> simulator \<Rightarrow> simulator" where
  "kosten_abschluss month current_date depotwert s =
     (if int month < verrechnungsdauer_monate (params s) \<and> abschlusskosten_rest s > 0 then
        (let monatliche_abschlusskosten =
               abschlusskosten_rest s / real_of_int (verrechnungsdauer_monate (params s))
         in s\<lparr>cashflows := cashflows s @ [- monatliche_abschlusskosten],
               real_cashflows :=
                 real_cashflows s @ [- monatliche_abschlusskosten / kumulierte_inflation_factor s],
               cashflow_dates := cashflow_dates s @ [current_date],
               portfolio := (if depotwert > 0 then
                               kosten_anteilig monatliche_abschlusskosten depotwert (portfolio s)
                             else portfolio s),
               abschlusskosten_summe := abschlusskosten_summe s + monatliche_abschlusskosten,
               abschlusskosten_real_summe :=
                 abschlusskosten_real_summe s
                   + monatliche_abschlusskosten / kumulierte_inflation_factor s\<rparr>)
      else s)"

text \<open>Monthly administration costs of the policy during the contribution phase.\<close>

definition kosten_verwaltung :: "nat \<Rightarrow> date \<Rightarrow> real \<Rightarrow> simulator \<Rightarrow> simulator" where
  "kosten_verwaltung month current_date depotwert s =
     (if int month < beitragszahldauer (params s) * 12 then
        (let monatliche_verwaltungskosten =
               self_monthly_investment s * verwaltungskosten_monatlich_prozent (params s)
         in s\<lparr>cashflows := cashflows s @ [- monatliche_verwaltungskosten],
               real_cashflows :=
                 real_cashflows s @ [- monatliche_verwaltungskosten / kumulierte_inflation_factor s],
               cashflow_dates := cashflow_dates s @ [current_date],
               portfolio := (if depotwert > 0 then
                               kosten_anteilig monatliche_verwaltungskosten depotwert (portfolio s)
                             else portfolio s),
               verwaltungskosten_summe := verwaltungskosten_summe s + monatliche_verwaltungskosten,
               verwaltungskosten_real_summe :=
                 verwaltungskosten_real_summe s
                   + monatliche_verwaltungskosten / kumulierte_inflation_factor s\<rparr>)
      else s)"

text \<open>
  \<^verbatim>\<open>_handle_costs\<close>: \<open>depotwert\<close> is computed once, before the first deduction, and
  every later block divides by that same value.
\<close>

definition handle_costs :: "nat \<Rightarrow> date \<Rightarrow> simulator \<Rightarrow> simulator" where
  "handle_costs month current_date s =
     (let depotwert = (if portfolio s \<noteq> [] then depotwert_of (portfolio s) else 0);
          s1 = kosten_stueckkosten current_date depotwert s;
          s2 = kosten_monatlich depotwert s1
      in if versicherung_modus (params s2) then
           kosten_verwaltung month current_date depotwert
             (kosten_abschluss month current_date depotwert s2)
         else s2)"

subsection \<open>Annual accrual tax (Vorabpauschale)\<close>

text \<open>
  The amounts that the loop of \<^verbatim>\<open>_handle_taxes\<close> computes for one tranche, each
  under the name of the local variable that holds it.
\<close>

definition vp_steuerbarer_ertrag :: "lot \<Rightarrow> simulator \<Rightarrow> real" where
  "vp_steuerbarer_ertrag entry s =
     (let start_value = start_of_prev_year_value entry;
          fiktiver_ertrag = start_value * basiszins (params s);
          real_ertrag = val entry - start_value
      in min fiktiver_ertrag real_ertrag)"

definition vp_zu_versteuern_temp :: "lot \<Rightarrow> simulator \<Rightarrow> real" where
  "vp_zu_versteuern_temp entry s =
     vp_steuerbarer_ertrag entry s * (1 - teilfreistellung (params s))"

definition vp_steuerfreibetrag_used :: "lot \<Rightarrow> simulator \<Rightarrow> real" where
  "vp_steuerfreibetrag_used entry s =
     (let steuerfreibetrag_verfuegbar = freistellungs_topf s
      in min steuerfreibetrag_verfuegbar (max 0 (vp_zu_versteuern_temp entry s)))"

definition vp_zu_versteuern :: "lot \<Rightarrow> simulator \<Rightarrow> real" where
  "vp_zu_versteuern entry s =
     max 0 (vp_zu_versteuern_temp entry s - vp_steuerfreibetrag_used entry s)"

definition vp_steuer :: "lot \<Rightarrow> simulator \<Rightarrow> real" where
  "vp_steuer entry s = vp_zu_versteuern entry s * full_tax_rate (params s)"

text \<open>
  The body of the loop for one tranche: the allowance is consumed in every case, the
  tranche and the tax counters change only under \<^verbatim>\<open>if steuer > 0\<close>.
\<close>

definition vorabpauschale_entry :: "date \<Rightarrow> lot \<Rightarrow> simulator \<Rightarrow> lot \<times> simulator" where
  "vorabpauschale_entry current_date entry s =
     (let steuerfreibetrag_used = vp_steuerfreibetrag_used entry s;
          s1 = s\<lparr>freistellungs_topf := freistellungs_topf s - steuerfreibetrag_used\<rparr>;
          zu_versteuern = vp_zu_versteuern entry s;
          steuer = vp_steuer entry s
      in if steuer > 0 then
           (entry\<lparr>val := val entry - steuer,
                  vorabpauschalen_bereits_versteuert :=
                    vorabpauschalen_bereits_versteuert entry + zu_versteuern\<rparr>,
            s1\<lparr>cashflows := cashflows s1 @ [- steuer],
               real_cashflows := real_cashflows s1 @ [- steuer / kumulierte_inflation_factor s1],
               cashflow_dates := cashflow_dates s1 @ [current_date],
               total_tax_paid := total_tax_paid s1 + steuer,
               total_tax_paid_real :=
                 total_tax_paid_real s1 + steuer / kumulierte_inflation_factor s1\<rparr>)
         else (entry, s1))"

fun handle_taxes_loop :: "date \<Rightarrow> lot list \<Rightarrow> simulator \<Rightarrow> lot list \<times> simulator" where
  "handle_taxes_loop current_date [] s = ([], s)"
| "handle_taxes_loop current_date (entry # rest) s =
     (case vorabpauschale_entry current_date entry s of
        (entry', s') \<Rightarrow>
          (case handle_taxes_loop current_date rest s' of
             (rest', s'') \<Rightarrow> (entry' # rest', s'')))"

definition handle_taxes :: "date \<Rightarrow> simulator \<Rightarrow> simulator" where
  "handle_taxes current_date s =
     (let is_january = (d_month current_date = 1)
      in if \<not> versicherung_modus (params s) \<and> is_january then
           (case handle_taxes_loop current_date (portfolio s) s of
              (pf, s') \<Rightarrow> s'\<lparr>portfolio := pf\<rparr>)
         else s)"

subsection \<open>Rebalancing\<close>

text \<open>The local variables of the sale loop of \<^verbatim>\<open>_handle_rebalancing\<close>.\<close>

record rebal_locals =
  remaining :: real
  temp_queue :: "lot list"
  total_verkauf :: real
  total_steuer :: real
  total_netto :: real

text \<open>
  The amounts computed for one tranche sold in a rebalancing, each under the name of its
  local variable. \<open>rb_steuerbarer_gewinn\<close> is the variable after its second assignment
  (the already-taxed accrual taken off, floored at zero).
\<close>

definition rb_sell_value :: "lot \<Rightarrow> real \<Rightarrow> real" where
  "rb_sell_value entry remaining_amount = min (val entry) remaining_amount"

definition rb_prop :: "lot \<Rightarrow> real \<Rightarrow> real" where
  "rb_prop entry remaining_amount = rb_sell_value entry remaining_amount / val entry"

definition rb_cost_basis :: "lot \<Rightarrow> real \<Rightarrow> real" where
  "rb_cost_basis entry remaining_amount = amount_invested entry * rb_prop entry remaining_amount"

definition rb_vorab_used :: "lot \<Rightarrow> real \<Rightarrow> simulator \<Rightarrow> real" where
  "rb_vorab_used entry remaining_amount s =
     (let gain = rb_sell_value entry remaining_amount - rb_cost_basis entry remaining_amount;
          steuerbarer_gewinn = gain * (1 - teilfreistellung (params s))
      in min (vorabpauschalen_bereits_versteuert entry * rb_prop entry remaining_amount)
             steuerbarer_gewinn)"

definition rb_steuerbarer_gewinn :: "lot \<Rightarrow> real \<Rightarrow> simulator \<Rightarrow> real" where
  "rb_steuerbarer_gewinn entry remaining_amount s =
     (let gain = rb_sell_value entry remaining_amount - rb_cost_basis entry remaining_amount;
          steuerbarer_gewinn = gain * (1 - teilfreistellung (params s))
      in max 0 (steuerbarer_gewinn - rb_vorab_used entry remaining_amount s))"

definition rb_steuerfreibetrag :: "lot \<Rightarrow> real \<Rightarrow> simulator \<Rightarrow> real" where
  "rb_steuerfreibetrag entry remaining_amount s =
     min (freistellungs_topf s) (rb_steuerbarer_gewinn entry remaining_amount s)"

definition rb_steuer :: "lot \<Rightarrow> real \<Rightarrow> simulator \<Rightarrow> real" where
  "rb_steuer entry remaining_amount s =
     max 0 ((rb_steuerbarer_gewinn entry remaining_amount s
             - rb_steuerfreibetrag entry remaining_amount s) * full_tax_rate (params s))"

definition rb_ruecknahmeabschlag :: "lot \<Rightarrow> real \<Rightarrow> simulator \<Rightarrow> real" where
  "rb_ruecknahmeabschlag entry remaining_amount s =
     rb_sell_value entry remaining_amount * ruecknahmeabschlag (params s)"

definition rb_netto_reinvest :: "lot \<Rightarrow> real \<Rightarrow> simulator \<Rightarrow> real" where
  "rb_netto_reinvest entry remaining_amount s =
     rb_sell_value entry remaining_amount - rb_steuer entry remaining_amount s
       - rb_ruecknahmeabschlag entry remaining_amount s"

text \<open>The tranche as the loop leaves it after the sale.\<close>

definition rb_entry_after :: "lot \<Rightarrow> real \<Rightarrow> simulator \<Rightarrow> lot" where
  "rb_entry_after entry remaining_amount s =
     entry\<lparr>val := val entry - rb_sell_value entry remaining_amount,
           amount_invested := amount_invested entry - rb_cost_basis entry remaining_amount,
           vorabpauschalen_bereits_versteuert :=
             max 0 (vorabpauschalen_bereits_versteuert entry
                    - rb_vorab_used entry remaining_amount s)\<rparr>"

text \<open>One iteration of the loop for a tranche of positive value.\<close>

definition rebalancing_tranche :: "lot \<Rightarrow> rebal_locals \<Rightarrow> simulator \<Rightarrow> rebal_locals \<times> simulator" where
  "rebalancing_tranche entry l s =
     (let r = remaining l;
          steuer = rb_steuer entry r s;
          ruecknahmeabschlag_betrag = rb_ruecknahmeabschlag entry r s;
          entry' = rb_entry_after entry r s
      in (l\<lparr>total_verkauf := total_verkauf l + rb_sell_value entry r,
            total_steuer := total_steuer l + steuer,
            total_netto := total_netto l + rb_netto_reinvest entry r s,
            temp_queue := (if val entry' > 1 / 1000000000 then temp_queue l @ [entry']
                           else temp_queue l),
            remaining := r - rb_sell_value entry r\<rparr>,
          s\<lparr>freistellungs_topf := freistellungs_topf s - rb_steuerfreibetrag entry r s,
            total_tax_paid := total_tax_paid s + steuer,
            total_tax_paid_real := total_tax_paid_real s + steuer / kumulierte_inflation_factor s,
            ruecknahmeabschlag_summe := ruecknahmeabschlag_summe s + ruecknahmeabschlag_betrag,
            ruecknahmeabschlag_real_summe :=
              ruecknahmeabschlag_real_summe s
                + ruecknahmeabschlag_betrag / kumulierte_inflation_factor s\<rparr>))"

text \<open>
  \<^verbatim>\<open>while remaining > 1e-9 and self.portfolio\<close>: the first argument is what is left of
  \<^verbatim>\<open>self.portfolio\<close>; every iteration pops its head. A tranche of value \<open>\<le> 0\<close> is
  popped and dropped (\<^verbatim>\<open>continue\<close>). The function returns the part of the queue
  that the loop never reached.
\<close>

fun rebalancing_loop :: "lot list \<Rightarrow> rebal_locals \<Rightarrow> simulator \<Rightarrow> lot list \<times> rebal_locals \<times> simulator" where
  "rebalancing_loop [] l s = ([], l, s)"
| "rebalancing_loop (entry # rest) l s =
     (if remaining l > 1 / 1000000000 then
        (if val entry \<le> 0 then rebalancing_loop rest l s
         else (case rebalancing_tranche entry l s of (l', s') \<Rightarrow> rebalancing_loop rest l' s'))
      else (entry # rest, l, s))"

definition handle_rebalancing :: "date \<Rightarrow> simulator \<Rightarrow> simulator" where
  "handle_rebalancing current_date s =
     (if \<not> versicherung_modus (params s) \<and> d_month current_date = 12
         \<and> rebalancing_rate (params s) > 0 then
        (let depotwert = depotwert_of (portfolio s);
             umzuschichten = depotwert * rebalancing_rate (params s)
         in if umzuschichten > 0 then
              (case rebalancing_loop (portfolio s)
                      \<lparr>remaining = umzuschichten, temp_queue = [], total_verkauf = 0,
                       total_steuer = 0, total_netto = 0\<rparr> s of
                 (rest, l, s') \<Rightarrow>
                   (let pf = temp_queue l @ rest;
                        pf' = (if total_netto l > 1 / 1000000000 then
                                 pf @ [new_lot current_date (total_netto l)]
                               else pf)
                    in s'\<lparr>portfolio := pf',
                          rebalancing_log := rebalancing_log s' @
                            [\<lparr>rb_Datum = current_date, Bruttoverkauf = total_verkauf l,
                              Steuer = total_steuer l, Netto_reinvestiert = total_netto l\<rparr>]\<rparr>))
            else s)
      else s)"

subsection \<open>Withdrawals\<close>

text \<open>
  The annual amount that applies in \<open>withdrawal_year\<close>: the plan entry with the largest
  key not above the year if there is a (non-empty) plan, else
  \<^verbatim>\<open>annual_withdrawal\<close>. The dictionary is an association list.
\<close>

definition entnahmebetrag_jahr_of :: "SparplanParameter \<Rightarrow> int \<Rightarrow> real" where
  "entnahmebetrag_jahr_of p withdrawal_year =
     (case entnahme_plan p of
        Some (kv # plan) \<Rightarrow>
          (let sorted_years = rev (sort (map fst (kv # plan)))
           in case find (\<lambda>plan_year. withdrawal_year \<ge> plan_year) sorted_years of
                Some plan_year \<Rightarrow>
                  (case map_of (kv # plan) plan_year of Some betrag \<Rightarrow> betrag | None \<Rightarrow> 0)
              | None \<Rightarrow> 0)
      | _ \<Rightarrow> (if annual_withdrawal p \<noteq> 0 then annual_withdrawal p else 0))"

text \<open>The amount due in the month of \<open>current_date\<close>; zero when nothing is due.\<close>

definition entnahmebetrag_of :: "SparplanParameter \<Rightarrow> date \<Rightarrow> real" where
  "entnahmebetrag_of p current_date =
     (let withdrawal_year = (d_year current_date - 2025) - beitragszahldauer p + 1;
          entnahmebetrag_jahr = entnahmebetrag_jahr_of p withdrawal_year
      in if entnahmebetrag_jahr \<le> 0 then 0
         else if entnahme_modus p = ''j'' @ [CHR 0xE4] @ ''hrlich'' \<and> d_month current_date = 1
           then entnahmebetrag_jahr
         else if entnahme_modus p = ''monatlich'' then entnahmebetrag_jahr / 12
         else 0)"

text \<open>The local variables of the sale loop of \<^verbatim>\<open>_handle_withdrawals\<close>.\<close>

record entnahme_locals =
  remaining_to_withdraw :: real
  netto_entnahme_summe :: real
  total_withdrawal_tax_this_year :: real
  wd_temp_queue :: "lot list"

text \<open>The amounts computed for one tranche sold in a withdrawal.\<close>

definition wd_sell_value :: "lot \<Rightarrow> real \<Rightarrow> real" where
  "wd_sell_value oldest_entry remaining_amount = min (val oldest_entry) remaining_amount"

definition wd_anteil :: "lot \<Rightarrow> real \<Rightarrow> real" where
  "wd_anteil oldest_entry remaining_amount =
     wd_sell_value oldest_entry remaining_amount / val oldest_entry"

definition wd_gewinn_anteil :: "lot \<Rightarrow> real \<Rightarrow> real" where
  "wd_gewinn_anteil oldest_entry remaining_amount =
     (val oldest_entry - amount_invested oldest_entry) * wd_anteil oldest_entry remaining_amount"

definition wd_investiert_anteil :: "lot \<Rightarrow> real \<Rightarrow> real" where
  "wd_investiert_anteil oldest_entry remaining_amount =
     amount_invested oldest_entry * wd_anteil oldest_entry remaining_amount"

text \<open>Insurance mode: the half-income rule after 12 years and from age 62.\<close>

definition wd_steuer_versicherung :: "date \<Rightarrow> lot \<Rightarrow> real \<Rightarrow> simulator \<Rightarrow> real" where
  "wd_steuer_versicherung current_date oldest_entry remaining_amount s =
     (let aktuelle_laufzeit =
            real_of_int (days_between current_date (date oldest_entry)) / 365.25;
          aktuelle_alter = real_of_int (eintrittsalter (params s))
            + real_of_int (days_between current_date (Date 2025 1 1)) / 365.25
      in if aktuelle_alter \<ge> 62 \<and> aktuelle_laufzeit \<ge> 12 then
           wd_gewinn_anteil oldest_entry remaining_amount * 0.5 * persoenlicher_steuersatz (params s)
         else
           wd_gewinn_anteil oldest_entry remaining_amount * 0.85
             * persoenlicher_steuersatz (params s))"

text \<open>Depot mode.\<close>

definition wd_vorabpauschalen_anteil :: "lot \<Rightarrow> real \<Rightarrow> real" where
  "wd_vorabpauschalen_anteil oldest_entry remaining_amount =
     vorabpauschalen_bereits_versteuert oldest_entry * wd_anteil oldest_entry remaining_amount"

definition wd_steuerbarer_gewinn :: "lot \<Rightarrow> real \<Rightarrow> simulator \<Rightarrow> real" where
  "wd_steuerbarer_gewinn oldest_entry remaining_amount s =
     wd_gewinn_anteil oldest_entry remaining_amount * (1 - teilfreistellung (params s))"

definition wd_steuerbarer_gewinn_nach_vp :: "lot \<Rightarrow> real \<Rightarrow> simulator \<Rightarrow> real" where
  "wd_steuerbarer_gewinn_nach_vp oldest_entry remaining_amount s =
     max 0 (wd_steuerbarer_gewinn oldest_entry remaining_amount s
            - wd_vorabpauschalen_anteil oldest_entry remaining_amount)"

definition wd_steuerfreibetrag_used :: "lot \<Rightarrow> real \<Rightarrow> simulator \<Rightarrow> real" where
  "wd_steuerfreibetrag_used oldest_entry remaining_amount s =
     min (freistellungs_topf s) (wd_steuerbarer_gewinn_nach_vp oldest_entry remaining_amount s)"

text \<open>
  The tax line of the depot branch, as written in \<^verbatim>\<open>SparplanSimulator_250819.py\<close>:
  it starts from \<^verbatim>\<open>steuerbarer_gewinn\<close>, not from
  \<^verbatim>\<open>steuerbarer_gewinn_nach_vp\<close>.
\<close>

definition wd_steuer_depot :: "lot \<Rightarrow> real \<Rightarrow> simulator \<Rightarrow> real" where
  "wd_steuer_depot oldest_entry remaining_amount s =
     max 0 ((wd_steuerbarer_gewinn oldest_entry remaining_amount s
             - wd_steuerfreibetrag_used oldest_entry remaining_amount s)
            * full_tax_rate (params s))"

definition wd_steuer :: "date \<Rightarrow> lot \<Rightarrow> real \<Rightarrow> simulator \<Rightarrow> real" where
  "wd_steuer current_date oldest_entry remaining_amount s =
     (if versicherung_modus (params s) then
        wd_steuer_versicherung current_date oldest_entry remaining_amount s
      else wd_steuer_depot oldest_entry remaining_amount s)"

text \<open>The tranche as the loop leaves it after the sale.\<close>

definition wd_entry_after :: "lot \<Rightarrow> real \<Rightarrow> simulator \<Rightarrow> lot" where
  "wd_entry_after oldest_entry remaining_amount s =
     (let e1 = (if versicherung_modus (params s) then oldest_entry
                else oldest_entry\<lparr>vorabpauschalen_bereits_versteuert :=
                       vorabpauschalen_bereits_versteuert oldest_entry
                         - wd_vorabpauschalen_anteil oldest_entry remaining_amount\<rparr>)
      in e1\<lparr>val := val oldest_entry - wd_sell_value oldest_entry remaining_amount,
            amount_invested :=
              amount_invested oldest_entry - wd_investiert_anteil oldest_entry remaining_amount\<rparr>)"

text \<open>One iteration of the loop for a tranche of positive value.\<close>

definition entnahme_tranche :: "date \<Rightarrow> lot \<Rightarrow> entnahme_locals \<Rightarrow> simulator \<Rightarrow> entnahme_locals \<times> simulator" where
  "entnahme_tranche current_date oldest_entry l s =
     (let r = remaining_to_withdraw l;
          sell_value = wd_sell_value oldest_entry r;
          steuer = wd_steuer current_date oldest_entry r s;
          s' = (if versicherung_modus (params s) then s
                else s\<lparr>freistellungs_topf :=
                         freistellungs_topf s - wd_steuerfreibetrag_used oldest_entry r s\<rparr>);
          ruecknahmeabschlag_betrag = sell_value * ruecknahmeabschlag (params s);
          netto_entnahme = sell_value - steuer - ruecknahmeabschlag_betrag;
          entry' = wd_entry_after oldest_entry r s
      in (l\<lparr>netto_entnahme_summe := netto_entnahme_summe l + netto_entnahme,
            total_withdrawal_tax_this_year := total_withdrawal_tax_this_year l + steuer,
            wd_temp_queue := (if val entry' > 1 / 1000000000 then wd_temp_queue l @ [entry']
                              else wd_temp_queue l),
            remaining_to_withdraw := r - sell_value\<rparr>,
          s'))"

text \<open>\<^verbatim>\<open>while remaining_to_withdraw > 1e-9 and self.portfolio\<close>, as for rebalancing.\<close>

fun entnahme_loop :: "date \<Rightarrow> lot list \<Rightarrow> entnahme_locals \<Rightarrow> simulator \<Rightarrow> lot list \<times> entnahme_locals \<times> simulator" where
  "entnahme_loop current_date [] l s = ([], l, s)"
| "entnahme_loop current_date (oldest_entry # rest) l s =
     (if remaining_to_withdraw l > 1 / 1000000000 then
        (if val oldest_entry \<le> 0 then entnahme_loop current_date rest l s
         else (case entnahme_tranche current_date oldest_entry l s of
                 (l', s') \<Rightarrow> entnahme_loop current_date rest l' s'))
      else (oldest_entry # rest, l, s))"

text \<open>
  \<^verbatim>\<open>_handle_withdrawals\<close>. The three early returns of the source are the three
  branches that give back \<open>s\<close>: contribution phase, nothing due this month, and an
  amount due that exceeds the portfolio value.
\<close>

definition handle_withdrawals :: "nat \<Rightarrow> date \<Rightarrow> simulator \<Rightarrow> simulator" where
  "handle_withdrawals month current_date s =
     (if int month < beitragszahldauer (params s) * 12 then s
      else
        (let depotwert = depotwert_of (portfolio s);
             entnahmebetrag = entnahmebetrag_of (params s) current_date
         in if entnahmebetrag \<le> 0 \<or> depotwert < entnahmebetrag then s
            else
              (case entnahme_loop current_date (portfolio s)
                      \<lparr>remaining_to_withdraw = entnahmebetrag, netto_entnahme_summe = 0,
                       total_withdrawal_tax_this_year = 0, wd_temp_queue = []\<rparr> s of
                 (rest, l, s') \<Rightarrow>
                   (let tax = total_withdrawal_tax_this_year l;
                        netto = netto_entnahme_summe l;
                        k = kumulierte_inflation_factor s'
                    in s'\<lparr>portfolio := wd_temp_queue l @ rest,
                          total_tax_paid := total_tax_paid s' + tax,
                          total_tax_paid_real := total_tax_paid_real s' + tax / k,
                          total_withdrawal_tax_paid := total_withdrawal_tax_paid s' + tax,
                          total_withdrawal_tax_paid_real :=
                            total_withdrawal_tax_paid_real s' + tax / k,
                          ruecknahmeabschlag_summe :=
                            ruecknahmeabschlag_summe s'
                              + entnahmebetrag * ruecknahmeabschlag (params s'),
                          ruecknahmeabschlag_real_summe :=
                            ruecknahmeabschlag_real_summe s'
                              + (entnahmebetrag * ruecknahmeabschlag (params s')) / k,
                          kumulierte_entnahmen := kumulierte_entnahmen s' + netto,
                          kumulierte_entnahmen_real := kumulierte_entnahmen_real s' + netto / k,
                          cashflows := cashflows s' @ [netto],
                          real_cashflows := real_cashflows s' @ [netto / k],
                          cashflow_dates := cashflow_dates s' @ [current_date]\<rparr>))))"

subsection \<open>One simulated month\<close>

text \<open>
  The return applied in a month: the entry of \<^verbatim>\<open>dynamic_returns\<close> if that list is
  given and not empty (indexing past its end raises \<^verbatim>\<open>IndexError\<close>), else the constant
  monthly return.
\<close>

definition monatsrendite :: "nat \<Rightarrow> simulator \<Rightarrow> py_error + real" where
  "monatsrendite month s =
     (case dynamic_returns s of
        Some (r # rs) \<Rightarrow>
          (if month < length (r # rs) then Inr ((r # rs) ! month) else Inl IndexError)
      | _ \<Rightarrow> Inr (monthly_return (params s)))"

text \<open>Growth of every tranche by the month's return.\<close>

definition wertentwicklung :: "real \<Rightarrow> simulator \<Rightarrow> simulator" where
  "wertentwicklung monthly_return_val s =
     s\<lparr>portfolio :=
         map (\<lambda>entry. entry\<lparr>val := val entry * (1 + monthly_return_val)\<rparr>) (portfolio s)\<rparr>"

text \<open>The row appended to \<^verbatim>\<open>monatliche_kosten_logs\<close>.\<close>

definition log_monat :: "date \<Rightarrow> simulator \<Rightarrow> simulator" where
  "log_monat current_date s =
     (let depotwert = depotwert_of (portfolio s);
          depotwert_real = depotwert / kumulierte_inflation_factor s
      in s\<lparr>monatliche_kosten_logs := monatliche_kosten_logs s @
            [\<lparr>Datum = current_date, Depotwert = depotwert, Depotwert_real = depotwert_real,
              kum = counters.truncate s\<rparr>]\<rparr>)"

text \<open>December: the value of every tranche becomes its year-start value.\<close>

definition jahresendwerte :: "simulator \<Rightarrow> simulator" where
  "jahresendwerte s =
     s\<lparr>portfolio :=
         map (\<lambda>entry. entry\<lparr>start_of_prev_year_value := val entry\<rparr>) (portfolio s)\<rparr>"

text \<open>January: the allowance bucket is set to the indexed annual allowance.\<close>

definition freibetrag_januar :: "date \<Rightarrow> simulator \<Rightarrow> simulator" where
  "freibetrag_januar current_date s =
     s\<lparr>freistellungs_topf :=
         freistellungsauftrag_jahr (params s) *
           (1 + freistellungs_pauschbetrag_anpassung_rate (params s))
             ^ nat (d_year current_date - 2025)\<rparr>"

text \<open>
  \<^verbatim>\<open>_simuliere_monat\<close>. The inflation draws are an input list here; the constructor
  makes it \<open>laufzeit * 12\<close> long, and a shorter list is reported as the index error that
  reading it would raise.
\<close>

definition simuliere_monat :: "nat \<Rightarrow> simulator \<Rightarrow> py_error + simulator" where
  "simuliere_monat month s =
     (let current_date = date_of_month month;
          is_january = (d_month current_date = 1);
          s0 = (if is_january then freibetrag_januar current_date s else s)
      in case handle_monthly_investment month current_date s0 of
           Inl e \<Rightarrow> Inl e
         | Inr s1 \<Rightarrow>
             (let s2 = handle_costs month current_date s1
              in case monatsrendite month s2 of
                   Inl e \<Rightarrow> Inl e
                 | Inr monthly_return_val \<Rightarrow>
                     (let s3 = wertentwicklung monthly_return_val s2
                      in if month < length (monthly_inflation_rates s3) then
                           (let s4 = s3\<lparr>kumulierte_inflation_factor :=
                                        kumulierte_inflation_factor s3
                                          * (1 + monthly_inflation_rates s3 ! month)\<rparr>;
                                s5 = handle_taxes current_date s4;
                                s6 = handle_rebalancing current_date s5;
                                s7 = handle_withdrawals month current_date s6;
                                s8 = log_monat current_date s7
                            in Inr (if d_month current_date = 12 then jahresendwerte s8
                                    else s8))
                         else Inl IndexError)))"

subsection \<open>End of the horizon and the whole run\<close>

text \<open>\<^verbatim>\<open>_finalisiere_simulation\<close>: a last log row, then the tax on the remaining value.\<close>

definition finalisiere_simulation :: "simulator \<Rightarrow> simulator" where
  "finalisiere_simulation s =
     (let enddatum = date_of_month (nat (laufzeit (params s) * 12));
          s1 = log_monat enddatum s;
          restwert = depotwert_of (portfolio s1)
      in if restwert > 1 / 1000000000 then
           (let investiert = sum_list (map amount_invested (portfolio s1));
                gewinn = max 0 (restwert - investiert);
                k = kumulierte_inflation_factor s1;
                steuer =
                  (if versicherung_modus (params s1) then
                     (let aktuelle_laufzeit = laufzeit (params s1);
                          aktuelle_alter = eintrittsalter (params s1) + aktuelle_laufzeit
                      in if aktuelle_alter \<ge> 62 \<and> aktuelle_laufzeit \<ge> 12 then
                           gewinn * 0.5 * persoenlicher_steuersatz (params s1)
                         else gewinn * 0.85 * persoenlicher_steuersatz (params s1))
                   else
                     (let steuerbar = gewinn * (1 - teilfreistellung (params s1));
                          bereits_versteuert =
                            sum_list (map vorabpauschalen_bereits_versteuert (portfolio s1))
                      in max 0 (steuerbar - bereits_versteuert) * full_tax_rate (params s1)));
                s2 = (if versicherung_modus (params s1) then s1
                      else s1\<lparr>total_withdrawal_tax_paid := total_withdrawal_tax_paid s1 + steuer,
                              total_withdrawal_tax_paid_real :=
                                total_withdrawal_tax_paid_real s1 + steuer / k\<rparr>);
                ruecknahmeabschlag_betrag = restwert * ruecknahmeabschlag (params s2);
                restwert_net = restwert - steuer - ruecknahmeabschlag_betrag
            in s2\<lparr>total_tax_paid := total_tax_paid s2 + steuer,
                  total_tax_paid_real := total_tax_paid_real s2 + steuer / k,
                  ruecknahmeabschlag_summe := ruecknahmeabschlag_summe s2 + ruecknahmeabschlag_betrag,
                  ruecknahmeabschlag_real_summe :=
                    ruecknahmeabschlag_real_summe s2 + ruecknahmeabschlag_betrag / k,
                  cashflows := cashflows s2 @ [restwert_net],
                  real_cashflows := real_cashflows s2 @ [restwert_net / k],
                  cashflow_dates := cashflow_dates s2 @ [enddatum],
                  kumulierte_entnahmen := kumulierte_entnahmen s2 + restwert_net,
                  kumulierte_entnahmen_real := kumulierte_entnahmen_real s2 + restwert_net / k\<rparr>)
         else s1)"

text \<open>The loop \<^verbatim>\<open>for month in range(self.params.laufzeit * 12)\<close>; an error ends it.\<close>

fun simuliere_monate :: "nat list \<Rightarrow> simulator \<Rightarrow> py_error + simulator" where
  "simuliere_monate [] s = Inr s"
| "simuliere_monate (month # months) s =
     (case simuliere_monat month s of
        Inl e \<Rightarrow> Inl e
      | Inr s' \<Rightarrow> simuliere_monate months s')"

text \<open>
  \<^verbatim>\<open>run_simulation\<close>. The result is the simulator after the run, which holds the log,
  the rebalancing log and the cash flows that the method returns.
\<close>

definition run_simulation :: "simulator \<Rightarrow> py_error + simulator" where
  "run_simulation s =
     (let s0 = initialisiere_simulation s
      in case simuliere_monate [0 ..< nat (laufzeit (params s0) * 12)] s0 of
           Inl e \<Rightarrow> Inl e
         | Inr s' \<Rightarrow> Inr (finalisiere_simulation s'))"


section \<open>The two halves of the initialisation\<close>

text \<open>
  \<^verbatim>\<open>_initialisiere_simulation\<close> first derives the rates and zeroes the cost fields
  of the other mode (lines 147 to 167), then books the initial investment (lines 169 to
  185). The two halves are named here so that facts about the parameter object need
  only the first; \<open>initialisiere_simulation\<close> is their composition, which is proved
  below.
\<close>

definition init_modus :: "simulator \<Rightarrow> simulator" where
  "init_modus s =
     (let p0 = params s;
          p1 = p0\<lparr>monthly_return := (1 + annual_return p0) powr (1 / 12) - 1,
                  full_tax_rate := abgeltungssteuer_rate p0 *
                    (1 + soli_zuschlag_on_abgeltungssteuer p0
                       + kirchensteuer_on_abgeltungssteuer p0)\<rparr>
      in if versicherung_modus p1 then
           (let p2 = p1\<lparr>ausgabeaufschlag := 0, ruecknahmeabschlag := 0,
                        stueckkosten := 0\<rparr>
            in s\<lparr>params := p2,
                 abschlusskosten_rest :=
                   (initial_investment p2 * abschlusskosten_einmalig_prozent p2)
                   + (monthly_investment p2 * real_of_int (beitragszahldauer p2) * 12)
                     * abschlusskosten_monatlich_prozent p2\<rparr>)
         else
           s\<lparr>params := p1\<lparr>abschlusskosten_einmalig_prozent := 0,
                            abschlusskosten_monatlich_prozent := 0,
                            verwaltungskosten_monatlich_prozent := 0,
                            guthabenkosten := 0\<rparr>\<rparr>)"

definition init_einzahlung :: "simulator \<Rightarrow> simulator" where
  "init_einzahlung s1 =
     (let aufschlag = initial_investment (params s1) * ausgabeaufschlag (params s1);
          nettobetrag = initial_investment (params s1) - aufschlag;
          s2 = s1\<lparr>ausgabeaufschlag_summe := ausgabeaufschlag_summe s1 + aufschlag,
                  ausgabeaufschlag_real_summe :=
                    ausgabeaufschlag_real_summe s1 + aufschlag / kumulierte_inflation_factor s1,
                  cashflows := cashflows s1 @ [- initial_investment (params s1)],
                  real_cashflows := real_cashflows s1 @ [- initial_investment (params s1)],
                  cashflow_dates := cashflow_dates s1 @ [Date 2025 1 1]\<rparr>
      in if nettobetrag > 0 then
           s2\<lparr>portfolio := portfolio s2 @ [new_lot (Date 2025 1 1) nettobetrag]\<rparr>
         else s2)"


section \<open>The two halves of a month\<close>

text \<open>
  \<^verbatim>\<open>_simuliere_monat\<close> up to the point where the first tax handler is called: the
  January reset of the allowance bucket, the deposits, the costs, the month's return and
  the inflation factor. Nothing before that point consumes allowance.
\<close>

definition monat_vor_steuern :: "nat \<Rightarrow> simulator \<Rightarrow> py_error + simulator" where
  "monat_vor_steuern month s =
     (let current_date = date_of_month month;
          is_january = (d_month current_date = 1);
          s0 = (if is_january then freibetrag_januar current_date s else s)
      in case handle_monthly_investment month current_date s0 of
           Inl e \<Rightarrow> Inl e
         | Inr s1 \<Rightarrow>
             (let s2 = handle_costs month current_date s1
              in case monatsrendite month s2 of
                   Inl e \<Rightarrow> Inl e
                 | Inr monthly_return_val \<Rightarrow>
                     (let s3 = wertentwicklung monthly_return_val s2
                      in if month < length (monthly_inflation_rates s3) then
                           Inr (s3\<lparr>kumulierte_inflation_factor :=
                                     kumulierte_inflation_factor s3
                                       * (1 + monthly_inflation_rates s3 ! month)\<rparr>)
                         else Inl IndexError)))"

text \<open>
  The rest of \<^verbatim>\<open>_simuliere_monat\<close>: the three handlers that consume allowance, the
  log row and the December snapshot.
\<close>

definition monat_ab_steuern :: "nat \<Rightarrow> simulator \<Rightarrow> simulator" where
  "monat_ab_steuern month s4 =
     (let current_date = date_of_month month;
          s5 = handle_taxes current_date s4;
          s6 = handle_rebalancing current_date s5;
          s7 = handle_withdrawals month current_date s6;
          s8 = log_monat current_date s7
      in if d_month current_date = 12 then jahresendwerte s8 else s8)"
section \<open>The sale tax of Gutachten.py\<close>

text \<open>
  The depot branch of \<^verbatim>\<open>_handle_withdrawals\<close> in \<^verbatim>\<open>Gutachten.py\<close> computes
  the same intermediate amounts as \<^verbatim>\<open>SparplanSimulator_250819.py\<close> and differs in
  the tax line only: \<^verbatim>\<open>zu_versteuern = max(0, steuerbarer_gewinn_nach_vp -
  steuerfreibetrag_used)\<close>, \<^verbatim>\<open>steuer = zu_versteuern * self.full_tax_rate\<close>.
\<close>

definition gutachten_wd_steuer_depot :: "lot \<Rightarrow> real \<Rightarrow> simulator \<Rightarrow> real" where
  "gutachten_wd_steuer_depot oldest_entry remaining_amount s =
     (let zu_versteuern =
            max 0 (wd_steuerbarer_gewinn_nach_vp oldest_entry remaining_amount s
                   - wd_steuerfreibetrag_used oldest_entry remaining_amount s)
      in zu_versteuern * full_tax_rate (params s))"





section \<open>The January block of the script 250720_final.py\<close>

text \<open>
  The script has no inputs: its PARAMETER section binds module-level names. The names
  that the January block reads are the fields of \<open>final_parameter\<close>, and
  \<open>final_parameter_250720\<close> holds the values of the script. Its variables
  \<^verbatim>\<open>portfolio\<close>, \<^verbatim>\<open>freistellungs_topf\<close> and \<^verbatim>\<open>total_tax_paid\<close> are the fields of
  \<open>final_state\<close>. A tranche of the script carries the key \<^verbatim>\<open>"units"\<close> in addition,
  which is written at creation and never read; it is left out.
\<close>

record final_parameter =
  f_freistellungsauftrag_jahr :: real
  f_basiszins :: real
  f_teilfreistellung :: real
  f_full_tax_rate :: real

definition final_parameter_250720 :: final_parameter where
  "final_parameter_250720 =
     \<lparr>f_freistellungsauftrag_jahr = 0, f_basiszins = 0.0255, f_teilfreistellung = 0.7,
      f_full_tax_rate = 0.25 * (1 + 0.055 + 0.09)\<rparr>"

record final_state =
  f_portfolio :: "lot list"
  f_freistellungs_topf :: real
  f_total_tax_paid :: real

text \<open>
  The amounts of lines 91 to 97 for one tranche. The realized yield is measured against
  the cost basis, and \<^verbatim>\<open>teilfreistellung\<close> is the factor applied to the yield.
\<close>

definition fv_steuerbarer_ertrag :: "final_parameter \<Rightarrow> lot \<Rightarrow> real" where
  "fv_steuerbarer_ertrag p entry =
     (let start_value = start_of_prev_year_value entry;
          fiktiver_ertrag = start_value * f_basiszins p;
          real_ertrag = val entry - amount_invested entry
      in min fiktiver_ertrag real_ertrag)"

definition fv_steuerfreibetrag :: "final_parameter \<Rightarrow> lot \<Rightarrow> final_state \<Rightarrow> real" where
  "fv_steuerfreibetrag p entry s =
     min (f_freistellungs_topf s) (fv_steuerbarer_ertrag p entry * f_teilfreistellung p)"

definition fv_zu_versteuern :: "final_parameter \<Rightarrow> lot \<Rightarrow> final_state \<Rightarrow> real" where
  "fv_zu_versteuern p entry s =
     max 0 ((fv_steuerbarer_ertrag p entry * f_teilfreistellung p) - fv_steuerfreibetrag p entry s)"

definition fv_steuer :: "final_parameter \<Rightarrow> lot \<Rightarrow> final_state \<Rightarrow> real" where
  "fv_steuer p entry s = max 0 (fv_zu_versteuern p entry s * f_full_tax_rate p)"

text \<open>Lines 98 to 102: every effect, the allowance included, is under \<^verbatim>\<open>if steuer > 0\<close>.\<close>

definition final_vorabpauschale_entry :: "final_parameter \<Rightarrow> lot \<Rightarrow> final_state \<Rightarrow> lot \<times> final_state" where
  "final_vorabpauschale_entry p entry s =
     (let steuer = fv_steuer p entry s
      in if steuer > 0 then
           (entry\<lparr>val := val entry - steuer,
                  vorabpauschalen_bereits_versteuert :=
                    vorabpauschalen_bereits_versteuert entry + fv_steuerbarer_ertrag p entry\<rparr>,
            s\<lparr>f_total_tax_paid := f_total_tax_paid s + steuer,
              f_freistellungs_topf := f_freistellungs_topf s - fv_steuerfreibetrag p entry s\<rparr>)
         else (entry, s))"

fun final_vorabpauschale_loop :: "final_parameter \<Rightarrow> lot list \<Rightarrow> final_state \<Rightarrow> lot list \<times> final_state" where
  "final_vorabpauschale_loop p [] s = ([], s)"
| "final_vorabpauschale_loop p (entry # rest) s =
     (case final_vorabpauschale_entry p entry s of
        (entry', s') \<Rightarrow>
          (case final_vorabpauschale_loop p rest s' of
             (rest', s'') \<Rightarrow> (entry' # rest', s'')))"

text \<open>The body of \<^verbatim>\<open>if is_january:\<close> (lines 89 to 102).\<close>

definition final_vorabpauschale_januar :: "final_parameter \<Rightarrow> final_state \<Rightarrow> final_state" where
  "final_vorabpauschale_januar p s =
     (let s0 = s\<lparr>f_freistellungs_topf := f_freistellungsauftrag_jahr p\<rparr>
      in case final_vorabpauschale_loop p (f_portfolio s0) s0 of
           (pf, s') \<Rightarrow> s'\<lparr>f_portfolio := pf\<rparr>)"


section \<open>The worst three years of a return history\<close>

text \<open>
  \<^verbatim>\<open>get_worst_3_years\<close> of \<^verbatim>\<open>monte_carlo_simulator.py\<close> takes a pandas series of
  monthly returns indexed by dates. It reads the year of every index entry and the values,
  nothing else, so the series is a list of pairs (year, return) in series order.

  \<^verbatim>\<open>groupby(monthly_returns.index.year)\<close> yields one group per year that occurs, the
  group keys in ascending order; the applied function compounds the returns of the group.
\<close>

definition groupby_years :: "(int \<times> real) list \<Rightarrow> int list" where
  "groupby_years monthly_returns = sort (remdups (map fst monthly_returns))"

definition returns_by_year :: "(int \<times> real) list \<Rightarrow> (int \<times> real) list" where
  "returns_by_year monthly_returns =
     map (\<lambda>y. (y, prod_list (map (\<lambda>x. 1 + x)
                      (map snd (filter (\<lambda>e. fst e = y) monthly_returns))) - 1))
       (groupby_years monthly_returns)"

text \<open>
  \<^verbatim>\<open>rolling(window=3).apply(...)\<close>: a row per row of the argument, under the same label;
  the first two rows hold NaN (\<open>None\<close>), every later row the compounded return of the
  three rows that end with it.
\<close>

fun rolling_windows :: "(int \<times> real) list \<Rightarrow> (int \<times> real option) list" where
  "rolling_windows (a # b # c # rest) =
     (fst c, Some ((1 + snd a) * (1 + snd b) * (1 + snd c) - 1)) # rolling_windows (b # c # rest)"
| "rolling_windows rest = []"

definition rolling_returns :: "(int \<times> real) list \<Rightarrow> (int \<times> real option) list" where
  "rolling_returns rby = map (\<lambda>e. (fst e, None)) (take 2 rby) @ rolling_windows rby"

text \<open>
  \<^verbatim>\<open>idxmin\<close> and \<^verbatim>\<open>min\<close> of a series skip NaN; \<^verbatim>\<open>idxmin\<close> gives the label of the first
  row that holds the minimum. The row found, if there is one:
\<close>

fun min_row :: "(int \<times> real option) list \<Rightarrow> (int \<times> real) option" where
  "min_row [] = None"
| "min_row ((l, None) # rest) = min_row rest"
| "min_row ((l, Some v) # rest) =
     (case min_row rest of
        None \<Rightarrow> Some (l, v)
      | Some (l', v') \<Rightarrow> if v' < v then Some (l', v') else Some (l, v))"

definition series_idxmin :: "(int \<times> real option) list \<Rightarrow> int option" where
  "series_idxmin rr = map_option fst (min_row rr)"

definition series_min :: "(int \<times> real option) list \<Rightarrow> real option" where
  "series_min rr = map_option snd (min_row rr)"

text \<open>
  The function. With fewer than three years every rolling value is NaN and \<^verbatim>\<open>idxmin\<close>
  has no row to name: the result is \<open>None\<close>. Otherwise the monthly returns of the
  window, its start year and its compounded return.
\<close>

definition get_worst_3_years :: "(int \<times> real) list \<Rightarrow> (real list \<times> int \<times> real) option" where
  "get_worst_3_years monthly_returns =
     (let rby = returns_by_year monthly_returns;
          rolling = rolling_returns rby
      in case (series_idxmin rolling, series_min rolling) of
           (Some idxmin, Some worst_period_return) \<Rightarrow>
             (let worst_period_start_year = idxmin - 2;
                  worst_period_returns =
                    filter (\<lambda>e. fst e \<ge> worst_period_start_year
                                \<and> fst e < worst_period_start_year + 3) monthly_returns
              in Some (map snd worst_period_returns, worst_period_start_year,
                       worst_period_return))
         | _ \<Rightarrow> None)"
section \<open>The specification's formulas and sample inputs\<close>

subsection \<open>Annual accrual tax as the specification words it\<close>

text \<open>
  These four definitions follow the specification's sentences, not the code; the theorems
  below compare them with what \<open>vorabpauschale_entry\<close> does.
\<close>

definition accrual_taxable_yield :: "real \<Rightarrow> real \<Rightarrow> real \<Rightarrow> real" where
  "accrual_taxable_yield startOfPriorYearValue baseRate realizedYield =
     min (startOfPriorYearValue * baseRate) realizedYield"

definition accrual_partially_exempt :: "real \<Rightarrow> real \<Rightarrow> real" where
  "accrual_partially_exempt taxableYield partialExemptionFraction =
     taxableYield * (1 - partialExemptionFraction)"

definition accrual_allowance_used :: "real \<Rightarrow> real \<Rightarrow> real" where
  "accrual_allowance_used availableAllowance partiallyExemptTaxable =
     min availableAllowance (max 0 partiallyExemptTaxable)"

definition accrual_tax_owed :: "real \<Rightarrow> real \<Rightarrow> real \<Rightarrow> real" where
  "accrual_tax_owed partiallyExemptTaxable allowanceUsed fullTaxRate =
     max 0 (partiallyExemptTaxable - allowanceUsed) * fullTaxRate"

subsection \<open>Sale tax as the specification words it\<close>

text \<open>
  The tax on one tranche sold, in depot mode: the gain after partial exemption, less the
  already-taxed accrual consumed, less the allowance used, times the full tax rate.
\<close>

definition sale_taxable_gain :: "real \<Rightarrow> real \<Rightarrow> real \<Rightarrow> real" where
  "sale_taxable_gain soldValue costBasisConsumed partialExemptionFraction =
     (soldValue - costBasisConsumed) * (1 - partialExemptionFraction)"

definition sale_tax :: "real \<Rightarrow> real \<Rightarrow> real \<Rightarrow> real \<Rightarrow> real" where
  "sale_tax taxableGain accrualConsumed allowanceUsed fullTaxRate =
     max 0 (max 0 (taxableGain - accrualConsumed) - allowanceUsed) * fullTaxRate"

subsection \<open>The inputs of a run\<close>

text \<open>
  What a run reads and, after initialisation, never writes: the parameter object, the
  return path and the inflation draws.
\<close>

definition inputs :: "simulator \<Rightarrow> SparplanParameter \<times> real list option \<times> real list" where
  "inputs s = (params s, dynamic_returns s, monthly_inflation_rates s)"

text \<open>
  The condition under which a month runs without a Python exception: a non-zero escalation
  interval from month 1 on, and a return path and inflation draws that reach the month.
\<close>

definition monat_ok :: "nat \<Rightarrow> simulator \<Rightarrow> bool" where
  "monat_ok month s \<longleftrightarrow>
     (month = 0 \<or> dynamik_turnus_monate (params s) \<noteq> 0) \<and>
     (case dynamic_returns s of Some (r # rs) \<Rightarrow> month < length (r # rs) | _ \<Rightarrow> True) \<and>
     month < length (monthly_inflation_rates s)"


subsection \<open>The accrual-tax event over a ledger, as the specification words it\<close>

text \<open>
  The specification leaves three points to the variant: what the realized yield is
  measured against (\<open>realizedYield\<close>, a function of the lot), what is added to the
  already-taxed accrual, and whether the allowance is consumed on a lot that owes no tax
  (\<open>gated\<close> says it is not). The partially exempt amount, the allowance used and the tax
  owed of one lot, given the allowance available to it:
\<close>

definition accrual_pet :: "(lot \<Rightarrow> real) \<Rightarrow> real \<Rightarrow> real \<Rightarrow> lot \<Rightarrow> real" where
  "accrual_pet realizedYield baseRate partialExemptionFraction e =
     accrual_partially_exempt
       (accrual_taxable_yield (start_of_prev_year_value e) baseRate (realizedYield e))
       partialExemptionFraction"

definition accrual_used :: "(lot \<Rightarrow> real) \<Rightarrow> real \<Rightarrow> real \<Rightarrow> real \<Rightarrow> lot \<Rightarrow> real" where
  "accrual_used realizedYield baseRate partialExemptionFraction availableAllowance e =
     accrual_allowance_used availableAllowance
       (accrual_pet realizedYield baseRate partialExemptionFraction e)"

definition accrual_tax :: "(lot \<Rightarrow> real) \<Rightarrow> real \<Rightarrow> real \<Rightarrow> real \<Rightarrow> real \<Rightarrow> lot \<Rightarrow> real" where
  "accrual_tax realizedYield baseRate partialExemptionFraction fullTaxRate availableAllowance e =
     accrual_tax_owed (accrual_pet realizedYield baseRate partialExemptionFraction e)
       (accrual_used realizedYield baseRate partialExemptionFraction availableAllowance e)
       fullTaxRate"

text \<open>
  The allowance available to each lot of the ledger, in ledger order: the first lot
  meets the bucket as it stands, each later lot what the lots before it left.
\<close>

fun accrual_available :: "bool \<Rightarrow> (lot \<Rightarrow> real) \<Rightarrow> real \<Rightarrow> real \<Rightarrow> real \<Rightarrow> real \<Rightarrow> lot list \<Rightarrow> real list" where
  "accrual_available gated ry b f r a [] = []"
| "accrual_available gated ry b f r a (e # es) =
     a # accrual_available gated ry b f r
           (if gated \<and> \<not> 0 < accrual_tax ry b f r a e then a else a - accrual_used ry b f a e)
           es"

text \<open>The bucket after the last lot.\<close>

fun accrual_bucket_after :: "bool \<Rightarrow> (lot \<Rightarrow> real) \<Rightarrow> real \<Rightarrow> real \<Rightarrow> real \<Rightarrow> real \<Rightarrow> lot list \<Rightarrow> real" where
  "accrual_bucket_after gated ry b f r a [] = a"
| "accrual_bucket_after gated ry b f r a (e # es) =
     accrual_bucket_after gated ry b f r
       (if gated \<and> \<not> 0 < accrual_tax ry b f r a e then a else a - accrual_used ry b f a e)
       es"

text \<open>The realized yield of the two kinds of variant.\<close>

definition yield_since_year_start :: "lot \<Rightarrow> real" where
  "yield_since_year_start e = val e - start_of_prev_year_value e"

definition yield_over_cost_basis :: "lot \<Rightarrow> real" where
  "yield_over_cost_basis e = val e - amount_invested e"

text \<open>
  A lot after the event: touched only if it owes tax; \<open>added\<close> is what the variant adds
  to the already-taxed accrual.
\<close>

definition accrual_lot_after :: "real \<Rightarrow> real \<Rightarrow> lot \<Rightarrow> lot" where
  "accrual_lot_after taxOwed added e =
     (if 0 < taxOwed then
        e\<lparr>val := val e - taxOwed,
          vorabpauschalen_bereits_versteuert := vorabpauschalen_bereits_versteuert e + added\<rparr>
      else e)"

subsection \<open>The worst three calendar years, as the specification words them\<close>

text \<open>
  The compounded return of a calendar year of the history, and of the three calendar
  years that start with a year.
\<close>

definition annual_return_of :: "(int \<times> real) list \<Rightarrow> int \<Rightarrow> real" where
  "annual_return_of xs y =
     prod_list (map (\<lambda>x. 1 + x) (map snd (filter (\<lambda>e. fst e = y) xs))) - 1"

definition window_return :: "(int \<times> real) list \<Rightarrow> int \<Rightarrow> real" where
  "window_return xs y =
     (1 + annual_return_of xs y) * (1 + annual_return_of xs (y + 1))
       * (1 + annual_return_of xs (y + 2)) - 1"
subsection \<open>Sample inputs\<close>

text \<open>A small depot scenario and a tranche with a gain of 100 over its year-start value.\<close>

definition params_depot :: SparplanParameter where
  "params_depot =
     \<lparr>label = ''Depot'', versicherung_modus = False, eintrittsalter = 35,
      initial_investment = 10000, monthly_investment = 400, laufzeit = 2,
      beitragszahldauer = 1, monthly_dynamik_rate = 0, dynamik_turnus_monate = 12,
      sonderzahlung_jahr = 0, sonderzahlung_betrag = 0, regel_sonderzahlung_betrag = 0,
      regel_sonderzahlung_turnus_jahre = 0, annual_withdrawal = 1200, entnahme_plan = None,
      entnahme_modus = ''monatlich'', annual_return = 0, ausgabeaufschlag = 0,
      ruecknahmeabschlag = 0, ter = 0, serviceentgelt = 0, stueckkosten = 45,
      abschlusskosten_einmalig_prozent = 0, abschlusskosten_monatlich_prozent = 0,
      verrechnungsdauer_monate = 60, verwaltungskosten_monatlich_prozent = 0,
      guthabenkosten = 0, abgeltungssteuer_rate = 1 / 4,
      soli_zuschlag_on_abgeltungssteuer = 0, kirchensteuer_on_abgeltungssteuer = 0,
      persoenlicher_steuersatz = 3 / 10, freistellungsauftrag_jahr = 8,
      teilfreistellung = 3 / 10, basiszins = 1 / 50, rebalancing_rate = 1 / 5,
      bewertungsdauer = 0, inflation_rate = 0, inflation_volatility = 0,
      freistellungs_pauschbetrag_anpassung_rate = 0, monthly_return = 0,
      full_tax_rate = 1 / 4\<rparr>"

definition sim_depot :: simulator where
  "sim_depot = new_simulator params_depot None []"

definition lot_a :: lot where
  "lot_a = \<lparr>date = Date 2025 1 1, amount_invested = 1000, val = 1100,
             start_of_prev_year_value = 1000, vorabpauschalen_bereits_versteuert = 0\<rparr>"


text \<open>A tranche that has doubled and carries 50 of already-taxed accrual.\<close>

definition lot_b :: lot where
  "lot_b = \<lparr>date = Date 2025 1 1, amount_invested = 100, val = 200,
             start_of_prev_year_value = 200, vorabpauschalen_bereits_versteuert = 50\<rparr>"

text \<open>The depot scenario in its first withdrawal month, holding \<open>lot_b\<close> only.\<close>

definition sim_entnahme :: simulator where
  "sim_entnahme = sim_depot\<lparr>portfolio := [lot_b]\<rparr>"

text \<open>The same month with a portfolio worth 50, less than the 100 due.\<close>

definition sim_knapp :: simulator where
  "sim_knapp = sim_depot\<lparr>portfolio := [new_lot (Date 2025 1 1) 50]\<rparr>"

text \<open>
  The depot scenario as the constructor builds it for a horizon of two years, with 24
  inflation draws of zero, after \<open>initialisiere_simulation\<close> and with \<open>lot_a\<close> added
  to the ledger.
\<close>

definition sim_lauf :: simulator where
  "sim_lauf =
     (let s = initialisiere_simulation (new_simulator params_depot None (replicate 24 0))
      in s\<lparr>portfolio := portfolio s @ [lot_a]\<rparr>)"

text \<open>
  An insurance scenario over one year with an entry load of 5 percent in its parameters,
  as the constructor builds it.
\<close>

definition params_police :: SparplanParameter where
  "params_police =
     params_depot\<lparr>label := ''Versicherung'', versicherung_modus := True, laufzeit := 1,
                  ausgabeaufschlag := 1 / 20, stueckkosten := 0\<rparr>"

definition sim_police :: simulator where
  "sim_police = new_simulator params_police None (replicate 12 0)"

text \<open>The depot scenario as the constructor builds it, with 24 inflation draws of zero.\<close>

definition sim_neu :: simulator where
  "sim_neu = new_simulator params_depot None (replicate 24 0)"

text \<open>A tranche with a gain of 10 over its year-start value, below the notional yield.\<close>

definition lot_c :: lot where
  "lot_c = \<lparr>date = Date 2025 1 1, amount_invested = 1000, val = 1010,
             start_of_prev_year_value = 1000, vorabpauschalen_bereits_versteuert = 0\<rparr>"

text \<open>The depot scenario in a January, bucket 8, holding \<open>lot_c\<close> and \<open>lot_a\<close>.\<close>

definition sim_januar :: simulator where
  "sim_januar = sim_depot\<lparr>portfolio := [lot_c, lot_a]\<rparr>"

text \<open>The variables of the script with the same two tranches.\<close>

definition fstate_januar :: final_state where
  "fstate_januar = \<lparr>f_portfolio = [lot_c, lot_a], f_freistellungs_topf = 0,
                    f_total_tax_paid = 0\<rparr>"

text \<open>Four years of two returns each; the worst three years start in 2001.\<close>

definition history :: "(int \<times> real) list" where
  "history = [(2000, 1 / 2), (2000, 0), (2001, - 1 / 2), (2001, 0), (2002, 0), (2002, 0),
              (2003, - 1 / 2), (2003, 1)]"
section \<open>Evaluation of the sample inputs\<close>

lemmas sample_defs = sim_depot_def sim_entnahme_def sim_knapp_def
  new_simulator_def params_depot_def lot_a_def lot_b_def new_lot_def sim_lauf_def
  params_police_def sim_police_def sim_neu_def
  lot_c_def sim_januar_def fstate_januar_def final_parameter_250720_def

lemmas wd_defs = wd_sell_value_def wd_anteil_def wd_gewinn_anteil_def wd_investiert_anteil_def
  wd_vorabpauschalen_anteil_def wd_steuerbarer_gewinn_def wd_steuerbarer_gewinn_nach_vp_def
  wd_steuerfreibetrag_used_def wd_steuer_depot_def

section \<open>Annual accrual tax\<close>

lemmas vp_defs = vp_steuerbarer_ertrag_def vp_zu_versteuern_temp_def
  vp_steuerfreibetrag_used_def vp_zu_versteuern_def vp_steuer_def Let_def

lemma vorabpauschale_entry_eq:
  "vorabpauschale_entry d entry s =
     (if 0 < vp_steuer entry s then
        (entry\<lparr>val := val entry - vp_steuer entry s,
               vorabpauschalen_bereits_versteuert :=
                 vorabpauschalen_bereits_versteuert entry + vp_zu_versteuern entry s\<rparr>,
         s\<lparr>freistellungs_topf := freistellungs_topf s - vp_steuerfreibetrag_used entry s,
           cashflows := cashflows s @ [- vp_steuer entry s],
           real_cashflows :=
             real_cashflows s @ [- vp_steuer entry s / kumulierte_inflation_factor s],
           cashflow_dates := cashflow_dates s @ [d],
           total_tax_paid := total_tax_paid s + vp_steuer entry s,
           total_tax_paid_real :=
             total_tax_paid_real s + vp_steuer entry s / kumulierte_inflation_factor s\<rparr>)
      else
        (entry,
         s\<lparr>freistellungs_topf := freistellungs_topf s - vp_steuerfreibetrag_used entry s\<rparr>))"
  by (simp add: vorabpauschale_entry_def Let_def)

lemma vp_zu_versteuern_nonneg: "0 \<le> vp_zu_versteuern entry s"
  by (simp add: vp_zu_versteuern_def)

lemma vp_steuer_nonneg: "0 \<le> full_tax_rate (params s) \<Longrightarrow> 0 \<le> vp_steuer entry s"
  by (simp add: vp_steuer_def vp_zu_versteuern_nonneg)


section \<open>The accrual-tax event over the whole ledger\<close>

lemma accrual_vp_bridge:
  "accrual_pet yield_since_year_start (basiszins (params s)) (teilfreistellung (params s)) e
     = vp_zu_versteuern_temp e s"
  "accrual_used yield_since_year_start (basiszins (params s)) (teilfreistellung (params s))
     (freistellungs_topf s) e = vp_steuerfreibetrag_used e s"
  "accrual_tax yield_since_year_start (basiszins (params s)) (teilfreistellung (params s))
     (full_tax_rate (params s)) (freistellungs_topf s) e = vp_steuer e s"
  "max 0 (accrual_pet yield_since_year_start (basiszins (params s))
            (teilfreistellung (params s)) e
          - accrual_used yield_since_year_start (basiszins (params s))
              (teilfreistellung (params s)) (freistellungs_topf s) e)
     = vp_zu_versteuern e s"
  by (simp_all add: accrual_pet_def accrual_used_def accrual_tax_def accrual_tax_owed_def
      accrual_allowance_used_def accrual_partially_exempt_def accrual_taxable_yield_def
      yield_since_year_start_def vp_defs)

lemma vorabpauschale_entry_spec:
  assumes "vorabpauschale_entry d e s = (e', s')"
  shows "e' = accrual_lot_after (vp_steuer e s) (vp_zu_versteuern e s) e"
    and "freistellungs_topf s' = freistellungs_topf s - vp_steuerfreibetrag_used e s"
    and "total_tax_paid s' = total_tax_paid s + (if 0 < vp_steuer e s then vp_steuer e s else 0)"
    and "cashflows s' = cashflows s @ (if 0 < vp_steuer e s then [- vp_steuer e s] else [])"
    and "params s' = params s"
  using assms by (auto simp: vorabpauschale_entry_eq accrual_lot_after_def split: if_splits)

text \<open>The taxes owed by the lots of a ledger, lot by lot, and the amounts added.\<close>

lemma handle_taxes_loop_spec:
  "handle_taxes_loop d es s = (es', s') \<Longrightarrow>
   (let ry = yield_since_year_start; b = basiszins (params s); f = teilfreistellung (params s);
        r = full_tax_rate (params s);
        av = accrual_available False ry b f r (freistellungs_topf s) es;
        taxes = map2 (\<lambda>e a. accrual_tax ry b f r a e) es av
    in es' = map2 (\<lambda>e a. accrual_lot_after (accrual_tax ry b f r a e)
                     (max 0 (accrual_pet ry b f e - accrual_used ry b f a e)) e) es av
     \<and> freistellungs_topf s' = accrual_bucket_after False ry b f r (freistellungs_topf s) es
     \<and> total_tax_paid s' = total_tax_paid s + sum_list (filter (\<lambda>t. 0 < t) taxes)
     \<and> cashflows s' = cashflows s @ map uminus (filter (\<lambda>t. 0 < t) taxes)
     \<and> params s' = params s)"
proof (induction es arbitrary: s es' s')
  case Nil
  then show ?case by (simp add: Let_def)
next
  case (Cons e es)
  obtain e1 s1 where step: "vorabpauschale_entry d e s = (e1, s1)"
    by (cases "vorabpauschale_entry d e s")
  obtain es2 s2 where rest: "handle_taxes_loop d es s1 = (es2, s2)"
    by (cases "handle_taxes_loop d es s1")
  have res: "es' = e1 # es2" "s' = s2" using Cons.prems step rest by simp_all
  note sp = vorabpauschale_entry_spec [OF step]
  note ih = Cons.IH [OF rest, unfolded Let_def sp(5) sp(2)]
  show ?case
    unfolding Let_def res
    using ih sp(1,3,4,5)
    by (simp add: accrual_vp_bridge [symmetric] del: max.absorb1 max.absorb2 max.absorb3 max.absorb4)
qed


subsection \<open>Facts about the specification's formulas\<close>

lemma accrual_used_bounds:
  "0 \<le> a \<Longrightarrow> 0 \<le> accrual_used ry b f a e"
  "accrual_used ry b f a e \<le> a"
  by (simp_all add: accrual_used_def accrual_allowance_used_def)

lemma accrual_tax_nonneg: "0 \<le> r \<Longrightarrow> 0 \<le> accrual_tax ry b f r a e"
  by (simp add: accrual_tax_def accrual_tax_owed_def)

lemma accrual_tax_negative_yield:
  assumes "ry e < 0" "f \<le> 1" "0 \<le> a"
  shows "accrual_tax ry b f r a e = 0"
proof -
  from assms(1) have "accrual_taxable_yield (start_of_prev_year_value e) b (ry e) < 0"
    by (simp add: accrual_taxable_yield_def min_def)
  with assms(2) have le: "accrual_pet ry b f e \<le> 0"
    by (simp add: accrual_pet_def accrual_partially_exempt_def mult_nonpos_nonneg)
  with assms(3) have "accrual_used ry b f a e = 0"
    by (simp add: accrual_used_def accrual_allowance_used_def)
  with le show ?thesis by (simp add: accrual_tax_def accrual_tax_owed_def)
qed

lemma length_accrual_available [simp]:
  "length (accrual_available g ry b f r a es) = length es"
  by (induction es arbitrary: a) simp_all

lemma accrual_available_nonneg:
  "0 \<le> a \<Longrightarrow> \<forall>x \<in> set (accrual_available g ry b f r a es). 0 \<le> x"
proof (induction es arbitrary: a)
  case Nil
  then show ?case by simp
next
  case (Cons e es)
  have "0 \<le> a - accrual_used ry b f a e" using accrual_used_bounds(2) [of ry b f a e] by simp
  from Cons.IH [OF this] Cons.IH [OF Cons.prems] Cons.prems show ?case by simp
qed

lemma accrual_bucket_after_ungated:
  "accrual_bucket_after False ry b f r a es =
     a - sum_list (map2 (\<lambda>e x. accrual_used ry b f x e) es
                     (accrual_available False ry b f r a es))"
  by (induction es arbitrary: a) simp_all

lemma accrual_bucket_after_bounds:
  "0 \<le> a \<Longrightarrow> 0 \<le> accrual_bucket_after g ry b f r a es \<and>
     accrual_bucket_after g ry b f r a es \<le> a"
proof (induction es arbitrary: a)
  case Nil
  then show ?case by simp
next
  case (Cons e es)
  have u: "0 \<le> a - accrual_used ry b f a e" "a - accrual_used ry b f a e \<le> a"
    using accrual_used_bounds(1) [OF Cons.prems, of ry b f e]
      accrual_used_bounds(2) [of ry b f a e] by simp_all
  from Cons.IH [OF u(1)] Cons.IH [OF Cons.prems] u(2) show ?case by auto
qed

lemma sum_list_filter_pos:
  "\<forall>t \<in> set ts. (0::real) \<le> t \<Longrightarrow> sum_list (filter (\<lambda>t. 0 < t) ts) = sum_list ts"
  by (induction ts) (auto simp: order.order_iff_strict)

lemma accrual_taxes_nonneg:
  "0 \<le> r \<Longrightarrow> \<forall>t \<in> set (map2 (\<lambda>e a. accrual_tax ry b f r a e) es av). 0 \<le> t"
  by (auto simp: accrual_tax_nonneg dest!: set_zip_leftD)

lemma map_val_accrual_lot_after:
  "0 \<le> r \<Longrightarrow>
   map val (map2 (\<lambda>e a. accrual_lot_after (accrual_tax ry b f r a e) (g e a) e) es av)
     = map2 (\<lambda>e a. val e - accrual_tax ry b f r a e) es av"
proof (induction es arbitrary: av)
  case Nil
  then show ?case by simp
next
  case (Cons e es)
  show ?case
  proof (cases av)
    case Nil
    then show ?thesis by simp
  next
    case (Cons a av')
    have "0 < accrual_tax ry b f r a e \<or> accrual_tax ry b f r a e = 0"
      using accrual_tax_nonneg [OF Cons.prems, of ry b f a e] by linarith
    then show ?thesis using Cons.IH [OF Cons.prems, of av'] Cons
      by (auto simp: accrual_lot_after_def)
  qed
qed

subsection \<open>The handler of SparplanSimulator_250819.py\<close>

lemma handle_taxes_spec:
  assumes "\<not> versicherung_modus (params s)" "d_month d = 1"
  shows
   "(let ry = yield_since_year_start; b = basiszins (params s); f = teilfreistellung (params s);
        r = full_tax_rate (params s);
        av = accrual_available False ry b f r (freistellungs_topf s) (portfolio s);
        taxes = map2 (\<lambda>e a. accrual_tax ry b f r a e) (portfolio s) av
    in portfolio (handle_taxes d s) =
         map2 (\<lambda>e a. accrual_lot_after (accrual_tax ry b f r a e)
                     (max 0 (accrual_pet ry b f e - accrual_used ry b f a e)) e)
           (portfolio s) av
     \<and> freistellungs_topf (handle_taxes d s) =
         accrual_bucket_after False ry b f r (freistellungs_topf s) (portfolio s)
     \<and> total_tax_paid (handle_taxes d s) =
         total_tax_paid s + sum_list (filter (\<lambda>t. 0 < t) taxes)
     \<and> cashflows (handle_taxes d s) = cashflows s @ map uminus (filter (\<lambda>t. 0 < t) taxes))"
proof (cases "handle_taxes_loop d (portfolio s) s")
  case (Pair pf s')
  from handle_taxes_loop_spec [OF Pair] assms show ?thesis
    by (simp add: handle_taxes_def Let_def Pair)
qed


subsection \<open>The handler of Gutachten.py\<close>




subsection \<open>The January block of 250720_final.py\<close>

lemmas fv_defs = fv_steuerbarer_ertrag_def fv_steuerfreibetrag_def fv_zu_versteuern_def
  fv_steuer_def Let_def

lemma fv_bridge_yield:
  "fv_steuerbarer_ertrag p e
     = accrual_taxable_yield (start_of_prev_year_value e) (f_basiszins p)
         (yield_over_cost_basis e)"
  by (simp add: fv_defs accrual_taxable_yield_def yield_over_cost_basis_def)

lemma fv_bridge_tax:
  assumes "0 \<le> f_freistellungs_topf s" "0 \<le> f_full_tax_rate p"
  shows "fv_steuer p e s
     = accrual_tax yield_over_cost_basis (f_basiszins p) (1 - f_teilfreistellung p)
         (f_full_tax_rate p) (f_freistellungs_topf s) e"
proof -
  define x where "x = fv_steuerbarer_ertrag p e * f_teilfreistellung p"
  have pet: "accrual_pet yield_over_cost_basis (f_basiszins p) (1 - f_teilfreistellung p) e = x"
    by (simp add: accrual_pet_def accrual_partially_exempt_def fv_bridge_yield x_def)
  have zv: "max 0 (x - min (f_freistellungs_topf s) x)
        = max 0 (x - min (f_freistellungs_topf s) (max 0 x))"
    using assms(1) by (simp add: min_def max_def)
  have "fv_steuer p e s = max 0 (x - min (f_freistellungs_topf s) x) * f_full_tax_rate p"
    using assms(2) by (simp add: fv_steuer_def fv_zu_versteuern_def fv_steuerfreibetrag_def x_def)
  then show ?thesis
    unfolding zv
    by (simp add: accrual_tax_def accrual_tax_owed_def accrual_used_def
        accrual_allowance_used_def pet)
qed

lemma fv_bridge_used:
  assumes "0 \<le> f_freistellungs_topf s" "0 < fv_steuer p e s"
  shows "fv_steuerfreibetrag p e s
     = accrual_used yield_over_cost_basis (f_basiszins p) (1 - f_teilfreistellung p)
         (f_freistellungs_topf s) e"
proof -
  define x where "x = fv_steuerbarer_ertrag p e * f_teilfreistellung p"
  have pet: "accrual_pet yield_over_cost_basis (f_basiszins p) (1 - f_teilfreistellung p) e = x"
    by (simp add: accrual_pet_def accrual_partially_exempt_def fv_bridge_yield x_def)
  from assms(2) have "0 < fv_zu_versteuern p e s"
    by (auto simp: fv_steuer_def max_def zero_less_mult_iff split: if_splits
        intro: ccontr) (metis fv_zu_versteuern_def max.cobounded1 not_less order.asym)
  then have "min (f_freistellungs_topf s) x < x"
    by (simp add: fv_zu_versteuern_def fv_steuerfreibetrag_def x_def)
  with assms(1) have "min (f_freistellungs_topf s) x = min (f_freistellungs_topf s) (max 0 x)"
    by (auto simp: min_def max_def split: if_splits)
  then show ?thesis
    by (simp add: fv_steuerfreibetrag_def accrual_used_def accrual_allowance_used_def pet
        x_def [symmetric])
qed


lemma final_vorabpauschale_entry_spec:
  assumes run: "final_vorabpauschale_entry p e s = (e', s')"
    and nn: "0 \<le> f_freistellungs_topf s" "0 \<le> f_full_tax_rate p"
  shows "e' = accrual_lot_after
                (accrual_tax yield_over_cost_basis (f_basiszins p) (1 - f_teilfreistellung p)
                   (f_full_tax_rate p) (f_freistellungs_topf s) e)
                (accrual_taxable_yield (start_of_prev_year_value e) (f_basiszins p)
                   (yield_over_cost_basis e)) e"
    and "f_freistellungs_topf s' =
           (if 0 < accrual_tax yield_over_cost_basis (f_basiszins p) (1 - f_teilfreistellung p)
                     (f_full_tax_rate p) (f_freistellungs_topf s) e
            then f_freistellungs_topf s
                   - accrual_used yield_over_cost_basis (f_basiszins p)
                       (1 - f_teilfreistellung p) (f_freistellungs_topf s) e
            else f_freistellungs_topf s)"
    and "f_total_tax_paid s' = f_total_tax_paid s +
           (if 0 < accrual_tax yield_over_cost_basis (f_basiszins p) (1 - f_teilfreistellung p)
                     (f_full_tax_rate p) (f_freistellungs_topf s) e
            then accrual_tax yield_over_cost_basis (f_basiszins p) (1 - f_teilfreistellung p)
                     (f_full_tax_rate p) (f_freistellungs_topf s) e
            else 0)"
proof -
  note t = fv_bridge_tax [OF nn, of e]
  show "e' = accrual_lot_after
                (accrual_tax yield_over_cost_basis (f_basiszins p) (1 - f_teilfreistellung p)
                   (f_full_tax_rate p) (f_freistellungs_topf s) e)
                (accrual_taxable_yield (start_of_prev_year_value e) (f_basiszins p)
                   (yield_over_cost_basis e)) e"
    using run unfolding t [symmetric] fv_bridge_yield [symmetric]
    by (auto simp: final_vorabpauschale_entry_def Let_def accrual_lot_after_def split: if_splits)
  show "f_freistellungs_topf s' =
           (if 0 < accrual_tax yield_over_cost_basis (f_basiszins p) (1 - f_teilfreistellung p)
                     (f_full_tax_rate p) (f_freistellungs_topf s) e
            then f_freistellungs_topf s
                   - accrual_used yield_over_cost_basis (f_basiszins p)
                       (1 - f_teilfreistellung p) (f_freistellungs_topf s) e
            else f_freistellungs_topf s)"
  proof (cases "0 < fv_steuer p e s")
    case True
    from fv_bridge_used [OF nn(1) True] True run show ?thesis
      unfolding t [symmetric]
      by (auto simp: final_vorabpauschale_entry_def Let_def)
  next
    case False
    with run show ?thesis
      unfolding t [symmetric]
      by (auto simp: final_vorabpauschale_entry_def Let_def)
  qed
  show "f_total_tax_paid s' = f_total_tax_paid s +
           (if 0 < accrual_tax yield_over_cost_basis (f_basiszins p) (1 - f_teilfreistellung p)
                     (f_full_tax_rate p) (f_freistellungs_topf s) e
            then accrual_tax yield_over_cost_basis (f_basiszins p) (1 - f_teilfreistellung p)
                     (f_full_tax_rate p) (f_freistellungs_topf s) e
            else 0)"
    using run unfolding t [symmetric]
    by (auto simp: final_vorabpauschale_entry_def Let_def split: if_splits)
qed

lemma final_vorabpauschale_loop_spec:
  "final_vorabpauschale_loop p es s = (es', s') \<Longrightarrow> 0 \<le> f_freistellungs_topf s \<Longrightarrow>
   0 \<le> f_full_tax_rate p \<Longrightarrow>
   (let ry = yield_over_cost_basis; b = f_basiszins p; f = 1 - f_teilfreistellung p;
        r = f_full_tax_rate p;
        av = accrual_available True ry b f r (f_freistellungs_topf s) es;
        taxes = map2 (\<lambda>e a. accrual_tax ry b f r a e) es av
    in es' = map2 (\<lambda>e a. accrual_lot_after (accrual_tax ry b f r a e)
                     (accrual_taxable_yield (start_of_prev_year_value e) b (ry e)) e) es av
     \<and> f_freistellungs_topf s' = accrual_bucket_after True ry b f r (f_freistellungs_topf s) es
     \<and> f_total_tax_paid s' = f_total_tax_paid s + sum_list (filter (\<lambda>t. 0 < t) taxes))"
proof (induction es arbitrary: s es' s')
  case Nil
  then show ?case by (simp add: Let_def)
next
  case (Cons e es)
  obtain e1 s1 where step: "final_vorabpauschale_entry p e s = (e1, s1)"
    by (cases "final_vorabpauschale_entry p e s")
  obtain es2 s2 where rest: "final_vorabpauschale_loop p es s1 = (es2, s2)"
    by (cases "final_vorabpauschale_loop p es s1")
  have res: "es' = e1 # es2" "s' = s2" using Cons.prems(1) step rest by simp_all
  note sp = final_vorabpauschale_entry_spec [OF step Cons.prems(2,3)]
  have nn1: "0 \<le> f_freistellungs_topf s1"
    unfolding sp(2)
    using Cons.prems(2)
      accrual_used_bounds(2) [of yield_over_cost_basis "f_basiszins p"
        "1 - f_teilfreistellung p" "f_freistellungs_topf s" e]
    by simp
  note ih = Cons.IH [OF rest nn1 Cons.prems(3), unfolded Let_def]
  show ?case
    unfolding Let_def res
    using ih sp by (simp split: if_splits)
qed

lemma final_vorabpauschale_januar_spec:
  assumes "0 \<le> f_freistellungsauftrag_jahr p" "0 \<le> f_full_tax_rate p"
  shows
   "(let ry = yield_over_cost_basis; b = f_basiszins p; f = 1 - f_teilfreistellung p;
        r = f_full_tax_rate p;
        av = accrual_available True ry b f r (f_freistellungsauftrag_jahr p) (f_portfolio s);
        taxes = map2 (\<lambda>e a. accrual_tax ry b f r a e) (f_portfolio s) av
    in f_portfolio (final_vorabpauschale_januar p s) =
         map2 (\<lambda>e a. accrual_lot_after (accrual_tax ry b f r a e)
                     (accrual_taxable_yield (start_of_prev_year_value e) b (ry e)) e)
           (f_portfolio s) av
     \<and> f_freistellungs_topf (final_vorabpauschale_januar p s) =
         accrual_bucket_after True ry b f r (f_freistellungsauftrag_jahr p) (f_portfolio s)
     \<and> f_total_tax_paid (final_vorabpauschale_januar p s) =
         f_total_tax_paid s + sum_list (filter (\<lambda>t. 0 < t) taxes))"
proof (cases "final_vorabpauschale_loop p (f_portfolio s)
                (s\<lparr>f_freistellungs_topf := f_freistellungsauftrag_jahr p\<rparr>)")
  case (Pair pf s')
  from final_vorabpauschale_loop_spec [OF Pair] assms show ?thesis
    by (simp add: final_vorabpauschale_januar_def Let_def Pair)
qed

lemma zip_accrual_available_nonneg:
  "0 \<le> a \<Longrightarrow> (e, x) \<in> set (zip es (accrual_available g ry b f r a es)) \<Longrightarrow> 0 \<le> x"
  using accrual_available_nonneg [of a g ry b f r es] by (auto dest: set_zip_rightD)

subsection \<open>The sample January\<close>

lemmas accrual_defs = accrual_pet_def accrual_used_def accrual_tax_def accrual_tax_owed_def
  accrual_allowance_used_def accrual_partially_exempt_def accrual_taxable_yield_def
  yield_since_year_start_def yield_over_cost_basis_def accrual_lot_after_def

lemma sim_januar_fields:
  "versicherung_modus (params sim_januar) = False"
  "full_tax_rate (params sim_januar) = 1 / 4"
  "teilfreistellung (params sim_januar) = 3 / 10"
  "basiszins (params sim_januar) = 1 / 50"
  "freistellungs_topf sim_januar = 8"
  "portfolio sim_januar = [lot_c, lot_a]"
  "total_tax_paid sim_januar = 0"
  "cashflows sim_januar = []"
  by (simp_all add: sim_januar_def sample_defs)

lemma lot_fields:
  "val lot_c = 1010" "start_of_prev_year_value lot_c = 1000" "amount_invested lot_c = 1000"
  "vorabpauschalen_bereits_versteuert lot_c = 0"
  "val lot_a = 1100" "start_of_prev_year_value lot_a = 1000" "amount_invested lot_a = 1000"
  "vorabpauschalen_bereits_versteuert lot_a = 0"
  by (simp_all add: lot_c_def lot_a_def)

lemma script_fields:
  "f_full_tax_rate final_parameter_250720 = 229 / 800"
  "f_teilfreistellung final_parameter_250720 = 7 / 10"
  "f_basiszins final_parameter_250720 = 51 / 2000"
  "f_freistellungsauftrag_jahr final_parameter_250720 = 0"
  "f_portfolio fstate_januar = [lot_c, lot_a]"
  "f_total_tax_paid fstate_januar = 0"
  by (simp_all add: final_parameter_250720_def fstate_januar_def)


lemma januar_amounts:
  "accrual_pet yield_since_year_start (1 / 50) (3 / 10) lot_c = 7"
  "accrual_used yield_since_year_start (1 / 50) (3 / 10) 8 lot_c = 7"
  "accrual_tax yield_since_year_start (1 / 50) (3 / 10) (1 / 4) 8 lot_c = 0"
  "accrual_pet yield_since_year_start (1 / 50) (3 / 10) lot_a = 14"
  "accrual_used yield_since_year_start (1 / 50) (3 / 10) 1 lot_a = 1"
  "accrual_tax yield_since_year_start (1 / 50) (3 / 10) (1 / 4) 1 lot_a = 13 / 4"
  by (simp_all add: accrual_defs lot_fields)

lemma script_amounts:
  "accrual_taxable_yield 1000 (51 / 2000) (yield_over_cost_basis lot_c) = 10"
  "accrual_taxable_yield 1000 (51 / 2000) (yield_over_cost_basis lot_a) = 51 / 2"
  "accrual_used yield_over_cost_basis (51 / 2000) (3 / 10) 0 lot_c = 0"
  "accrual_tax yield_over_cost_basis (51 / 2000) (3 / 10) (229 / 800) 0 lot_c = 1603 / 800"
  "accrual_used yield_over_cost_basis (51 / 2000) (3 / 10) 0 lot_a = 0"
  "accrual_tax yield_over_cost_basis (51 / 2000) (3 / 10) (229 / 800) 0 lot_a = 81753 / 16000"
  by (simp_all add: accrual_defs lot_fields)

text \<open>
  Claim C2. At a January accrual-tax event in non-insurance mode the handler
  \<open>handle_taxes\<close> of \<^verbatim>\<open>SparplanSimulator_250819.py\<close> charges every lot of the ledger
  the tax of the specification's formulas: with \<open>availableAllowance\<close> the bucket as the
  lots before it in the ledger left it, \<open>realizedYield = value - startOfPriorYearValue\<close>,
  \<open>taxableYield = min (startOfPriorYearValue * baseRate) realizedYield\<close>,
  \<open>partiallyExemptTaxable = taxableYield * (1 - partialExemptionFraction)\<close>,
  \<open>allowanceUsed = min availableAllowance (max 0 partiallyExemptTaxable)\<close> and
  \<open>taxOwed = max 0 (partiallyExemptTaxable - allowanceUsed) * fullTaxRate\<close>,
  the value of each lot after the event is its value before less its \<open>taxOwed\<close>, the
  cumulative tax counter has grown by the sum of the \<open>taxOwed\<close>, the bucket has
  shrunk by the sum of the \<open>allowanceUsed\<close>, no \<open>taxOwed\<close> is negative, and a lot
  whose realized yield is negative owes nothing. The January block of
  \<^verbatim>\<open>250720_final.py\<close> charges the same formulas' tax to every lot, with the realized
  yield measured against the cost basis, with its \<^verbatim>\<open>teilfreistellung\<close> being the
  taxable share (so \<open>partialExemptionFraction = 1 - teilfreistellung\<close>), and with the
  bucket starting at the annual allowance. The tax rates are taken non-negative, the
  exempt fraction at most 1 and the bucket and annual allowance non-negative.
\<close>

theorem accrual_tax_formula:
  fixes s :: simulator and p :: final_parameter and fs :: final_state
  assumes depot: "\<not> versicherung_modus (params s)" and jan: "d_month d = 1"
    and rate: "0 \<le> full_tax_rate (params s)" and tf: "teilfreistellung (params s) \<le> 1"
    and topf: "0 \<le> freistellungs_topf s"
    and frate: "0 \<le> f_full_tax_rate p" and ftf: "0 \<le> f_teilfreistellung p"
    and ffa: "0 \<le> f_freistellungsauftrag_jahr p"
  shows
   "(let ry = yield_since_year_start; b = basiszins (params s); f = teilfreistellung (params s);
        r = full_tax_rate (params s); pf = portfolio s;
        av = accrual_available False ry b f r (freistellungs_topf s) pf;
        s' = handle_taxes d s
    in map val (portfolio s') = map2 (\<lambda>e a. val e - accrual_tax ry b f r a e) pf av
     \<and> total_tax_paid s' = total_tax_paid s + sum_list (map2 (\<lambda>e a. accrual_tax ry b f r a e) pf av)
     \<and> freistellungs_topf s' =
         freistellungs_topf s - sum_list (map2 (\<lambda>e a. accrual_used ry b f a e) pf av)
     \<and> (\<forall>(e, a) \<in> set (zip pf av).
           0 \<le> accrual_tax ry b f r a e \<and>
           (val e < start_of_prev_year_value e \<longrightarrow> accrual_tax ry b f r a e = 0)))
    \<and>
    (let ry = yield_over_cost_basis; b = f_basiszins p; f = 1 - f_teilfreistellung p;
        r = f_full_tax_rate p; pf = f_portfolio fs;
        av = accrual_available True ry b f r (f_freistellungsauftrag_jahr p) pf;
        fs' = final_vorabpauschale_januar p fs
    in map val (f_portfolio fs') = map2 (\<lambda>e a. val e - accrual_tax ry b f r a e) pf av
     \<and> f_total_tax_paid fs' =
         f_total_tax_paid fs + sum_list (map2 (\<lambda>e a. accrual_tax ry b f r a e) pf av)
     \<and> (\<forall>(e, a) \<in> set (zip pf av).
           0 \<le> accrual_tax ry b f r a e \<and>
           (val e < amount_invested e \<longrightarrow> accrual_tax ry b f r a e = 0)))"
proof (rule conjI)
  let ?ry = yield_since_year_start
  let ?b = "basiszins (params s)" and ?f = "teilfreistellung (params s)"
  let ?r = "full_tax_rate (params s)"
  let ?av = "accrual_available False ?ry ?b ?f ?r (freistellungs_topf s) (portfolio s)"
  let ?taxes = "map2 (\<lambda>e a. accrual_tax ?ry ?b ?f ?r a e) (portfolio s) ?av"
  note sp = handle_taxes_spec [OF depot jan, unfolded Let_def]
  have pos: "sum_list (filter (\<lambda>t. 0 < t) ?taxes) = sum_list ?taxes"
    by (rule sum_list_filter_pos) (rule accrual_taxes_nonneg [OF rate])
  have vals: "map val (portfolio (handle_taxes d s))
      = map2 (\<lambda>e a. val e - accrual_tax ?ry ?b ?f ?r a e) (portfolio s) ?av"
    unfolding sp [THEN conjunct1] by (rule map_val_accrual_lot_after [OF rate])
  have each: "\<forall>(e, a) \<in> set (zip (portfolio s) ?av).
           0 \<le> accrual_tax ?ry ?b ?f ?r a e \<and>
           (val e < start_of_prev_year_value e \<longrightarrow> accrual_tax ?ry ?b ?f ?r a e = 0)"
  proof (clarify, rule conjI)
    fix e a assume "(e, a) \<in> set (zip (portfolio s) ?av)"
    then have a: "0 \<le> a" using zip_accrual_available_nonneg [OF topf] by blast
    show "0 \<le> accrual_tax ?ry ?b ?f ?r a e" by (rule accrual_tax_nonneg [OF rate])
    show "val e < start_of_prev_year_value e \<longrightarrow> accrual_tax ?ry ?b ?f ?r a e = 0"
      using accrual_tax_negative_yield [of ?ry e ?f a ?b ?r] tf a
      by (simp add: yield_since_year_start_def)
  qed
  show "let ry = yield_since_year_start; b = basiszins (params s);
        f = teilfreistellung (params s);
        r = full_tax_rate (params s); pf = portfolio s;
        av = accrual_available False ry b f r (freistellungs_topf s) pf;
        s' = handle_taxes d s
    in map val (portfolio s') = map2 (\<lambda>e a. val e - accrual_tax ry b f r a e) pf av
     \<and> total_tax_paid s' = total_tax_paid s + sum_list (map2 (\<lambda>e a. accrual_tax ry b f r a e) pf av)
     \<and> freistellungs_topf s' =
         freistellungs_topf s - sum_list (map2 (\<lambda>e a. accrual_used ry b f a e) pf av)
     \<and> (\<forall>(e, a) \<in> set (zip pf av).
           0 \<le> accrual_tax ry b f r a e \<and>
           (val e < start_of_prev_year_value e \<longrightarrow> accrual_tax ry b f r a e = 0))"
    unfolding Let_def
    using vals each sp [THEN conjunct2, THEN conjunct1]
      sp [THEN conjunct2, THEN conjunct2, THEN conjunct1]
    unfolding pos accrual_bucket_after_ungated
    by blast
next
  let ?ry = yield_over_cost_basis
  let ?b = "f_basiszins p" and ?f = "1 - f_teilfreistellung p"
  let ?r = "f_full_tax_rate p"
  let ?av = "accrual_available True ?ry ?b ?f ?r (f_freistellungsauftrag_jahr p) (f_portfolio fs)"
  let ?taxes = "map2 (\<lambda>e a. accrual_tax ?ry ?b ?f ?r a e) (f_portfolio fs) ?av"
  note sp = final_vorabpauschale_januar_spec [OF ffa frate, of fs, unfolded Let_def]
  have pos: "sum_list (filter (\<lambda>t. 0 < t) ?taxes) = sum_list ?taxes"
    by (rule sum_list_filter_pos) (rule accrual_taxes_nonneg [OF frate])
  have vals: "map val (f_portfolio (final_vorabpauschale_januar p fs))
      = map2 (\<lambda>e a. val e - accrual_tax ?ry ?b ?f ?r a e) (f_portfolio fs) ?av"
    unfolding sp [THEN conjunct1] by (rule map_val_accrual_lot_after [OF frate])
  have each: "\<forall>(e, a) \<in> set (zip (f_portfolio fs) ?av).
           0 \<le> accrual_tax ?ry ?b ?f ?r a e \<and>
           (val e < amount_invested e \<longrightarrow> accrual_tax ?ry ?b ?f ?r a e = 0)"
  proof (clarify, rule conjI)
    fix e a assume "(e, a) \<in> set (zip (f_portfolio fs) ?av)"
    then have a: "0 \<le> a" using zip_accrual_available_nonneg [OF ffa] by blast
    show "0 \<le> accrual_tax ?ry ?b ?f ?r a e" by (rule accrual_tax_nonneg [OF frate])
    show "val e < amount_invested e \<longrightarrow> accrual_tax ?ry ?b ?f ?r a e = 0"
      using accrual_tax_negative_yield [of ?ry e ?f a ?b ?r] ftf a
      by (simp add: yield_over_cost_basis_def)
  qed
  show "let ry = yield_over_cost_basis; b = f_basiszins p; f = 1 - f_teilfreistellung p;
        r = f_full_tax_rate p; pf = f_portfolio fs;
        av = accrual_available True ry b f r (f_freistellungsauftrag_jahr p) pf;
        fs' = final_vorabpauschale_januar p fs
    in map val (f_portfolio fs') = map2 (\<lambda>e a. val e - accrual_tax ry b f r a e) pf av
     \<and> f_total_tax_paid fs' =
         f_total_tax_paid fs + sum_list (map2 (\<lambda>e a. accrual_tax ry b f r a e) pf av)
     \<and> (\<forall>(e, a) \<in> set (zip pf av).
           0 \<le> accrual_tax ry b f r a e \<and>
           (val e < amount_invested e \<longrightarrow> accrual_tax ry b f r a e = 0))"
    unfolding Let_def
    using vals each sp [THEN conjunct2, THEN conjunct2]
    unfolding pos
    by blast
qed

theorem accrual_tax_formula_witness:
  "\<not> versicherung_modus (params sim_januar) \<and> d_month (Date 2026 1 1) = 1
   \<and> 0 \<le> full_tax_rate (params sim_januar) \<and> teilfreistellung (params sim_januar) \<le> 1
   \<and> 0 \<le> freistellungs_topf sim_januar
   \<and> 0 \<le> f_full_tax_rate final_parameter_250720
   \<and> 0 \<le> f_teilfreistellung final_parameter_250720
   \<and> 0 \<le> f_freistellungsauftrag_jahr final_parameter_250720
   \<and> map val (portfolio (handle_taxes (Date 2026 1 1) sim_januar)) = [1010, 1100 - 13 / 4]
   \<and> total_tax_paid (handle_taxes (Date 2026 1 1) sim_januar) = 13 / 4
   \<and> freistellungs_topf (handle_taxes (Date 2026 1 1) sim_januar) = 0
   \<and> map val (f_portfolio (final_vorabpauschale_januar final_parameter_250720 fstate_januar))
       = [1010 - 7 * (229 / 800), 1100 - (357 / 20) * (229 / 800)]
   \<and> f_total_tax_paid (final_vorabpauschale_januar final_parameter_250720 fstate_januar)
       = 7 * (229 / 800) + (357 / 20) * (229 / 800)"
proof -
  have h: "\<not> versicherung_modus (params sim_januar)" "d_month (Date 2026 1 1) = 1"
    "0 \<le> full_tax_rate (params sim_januar)" "teilfreistellung (params sim_januar) \<le> 1"
    "0 \<le> freistellungs_topf sim_januar"
    "0 \<le> f_full_tax_rate final_parameter_250720"
    "0 \<le> f_teilfreistellung final_parameter_250720"
    "0 \<le> f_freistellungsauftrag_jahr final_parameter_250720"
    by (simp_all add: sim_januar_fields script_fields)
  from accrual_tax_formula [OF h, of fstate_januar] h show ?thesis
    by (simp add: Let_def sim_januar_fields script_fields lot_fields januar_amounts
        script_amounts accrual_lot_after_def)
qed




section \<open>Withdrawals\<close>

text \<open>
  Claim C10. In \<^verbatim>\<open>SparplanSimulator_250819.py\<close>, when the amount due in a month
  exceeds the portfolio value, \<^verbatim>\<open>_handle_withdrawals\<close> returns the simulator
  unchanged: no tranche is sold, nothing is charged or recorded, the ledger and every
  counter stay as they were.
\<close>

theorem withdrawal_skipped_when_short:
  assumes "depotwert_of (portfolio s) < entnahmebetrag_of (params s) current_date"
  shows "handle_withdrawals month current_date s = s"
  using assms by (simp add: handle_withdrawals_def Let_def)

lemma due_knapp: "entnahmebetrag_of (params sim_knapp) (date_of_month 12) = 100"
  by (simp add: entnahmebetrag_of_def entnahmebetrag_jahr_of_def Let_def date_of_month_def
      sample_defs)

theorem withdrawal_skipped_when_short_witness:
  "depotwert_of (portfolio sim_knapp) < entnahmebetrag_of (params sim_knapp) (date_of_month 12)
   \<and> \<not> int 12 < beitragszahldauer (params sim_knapp) * 12
   \<and> handle_withdrawals 12 (date_of_month 12) sim_knapp = sim_knapp"
proof -
  have h: "depotwert_of (portfolio sim_knapp)
      < entnahmebetrag_of (params sim_knapp) (date_of_month 12)"
    unfolding due_knapp by (simp add: depotwert_of_def sample_defs)
  have "\<not> int 12 < beitragszahldauer (params sim_knapp) * 12"
    by (simp add: sample_defs)
  with h withdrawal_skipped_when_short [OF h, of 12] show ?thesis by simp
qed

text \<open>
  The tax line of \<^verbatim>\<open>Gutachten.py\<close> is the specification's formula: the accrual
  consumed is taken off the taxable gain before the allowance and the rate apply.
\<close>

lemma gutachten_wd_steuer_is_sale_tax:
  assumes "0 < val oldest_entry"
  shows "gutachten_wd_steuer_depot oldest_entry r s =
     sale_tax (sale_taxable_gain (wd_sell_value oldest_entry r)
                 (wd_investiert_anteil oldest_entry r) (teilfreistellung (params s)))
       (wd_vorabpauschalen_anteil oldest_entry r)
       (wd_steuerfreibetrag_used oldest_entry r s) (full_tax_rate (params s))"
proof -
  have "wd_gewinn_anteil oldest_entry r
      = wd_sell_value oldest_entry r - wd_investiert_anteil oldest_entry r"
    using assms by (simp add: wd_gewinn_anteil_def wd_investiert_anteil_def wd_anteil_def
        field_simps)
  then show ?thesis
    by (simp add: gutachten_wd_steuer_depot_def sale_tax_def sale_taxable_gain_def Let_def
        wd_steuerbarer_gewinn_nach_vp_def wd_steuerbarer_gewinn_def)
qed

lemma wd_lot_b:
  "wd_sell_value lot_b 100 = 100"
  "wd_anteil lot_b 100 = 1 / 2"
  "wd_gewinn_anteil lot_b 100 = 50"
  "wd_vorabpauschalen_anteil lot_b 100 = 25"
  "wd_steuerbarer_gewinn lot_b 100 sim_entnahme = 35"
  "wd_steuerbarer_gewinn_nach_vp lot_b 100 sim_entnahme = 10"
  "wd_steuerfreibetrag_used lot_b 100 sim_entnahme = 8"
  by (simp_all add: wd_defs sample_defs)

lemma wd_steuer_lot_b: "wd_steuer (date_of_month 12) lot_b 100 sim_entnahme = 27 / 4"
  by (simp add: wd_steuer_def wd_steuer_depot_def wd_lot_b) (simp add: sample_defs)

lemma due_entnahme: "entnahmebetrag_of (params sim_entnahme) (date_of_month 12) = 100"
  by (simp add: entnahmebetrag_of_def entnahmebetrag_jahr_of_def Let_def date_of_month_def
      sample_defs)

lemma flags_entnahme:
  "versicherung_modus (params sim_entnahme) = False"
  "ruecknahmeabschlag (params sim_entnahme) = 0"
  "beitragszahldauer (params sim_entnahme) = 1"
  "portfolio sim_entnahme = [lot_b]"
  "total_withdrawal_tax_paid sim_entnahme = 0"
  "val lot_b = 200"
  by (simp_all add: sample_defs)

lemma tranche_lot_b:
  "entnahme_tranche (date_of_month 12) lot_b
     \<lparr>remaining_to_withdraw = 100, netto_entnahme_summe = 0,
      total_withdrawal_tax_this_year = 0, wd_temp_queue = []\<rparr> sim_entnahme =
   (\<lparr>remaining_to_withdraw = 0, netto_entnahme_summe = 100 - 27 / 4,
     total_withdrawal_tax_this_year = 27 / 4,
     wd_temp_queue = [wd_entry_after lot_b 100 sim_entnahme]\<rparr>,
    sim_entnahme\<lparr>freistellungs_topf := freistellungs_topf sim_entnahme - 8\<rparr>)"
  by (simp add: entnahme_tranche_def Let_def wd_steuer_lot_b wd_lot_b flags_entnahme
      wd_entry_after_def)

lemma loop_lot_b:
  "entnahme_loop (date_of_month 12) [lot_b]
     \<lparr>remaining_to_withdraw = 100, netto_entnahme_summe = 0,
      total_withdrawal_tax_this_year = 0, wd_temp_queue = []\<rparr> sim_entnahme =
   ([], \<lparr>remaining_to_withdraw = 0, netto_entnahme_summe = 100 - 27 / 4,
     total_withdrawal_tax_this_year = 27 / 4,
     wd_temp_queue = [wd_entry_after lot_b 100 sim_entnahme]\<rparr>,
    sim_entnahme\<lparr>freistellungs_topf := freistellungs_topf sim_entnahme - 8\<rparr>)"
  by (simp add: tranche_lot_b flags_entnahme)

text \<open>
  Claim C1 against \<^verbatim>\<open>SparplanSimulator_250819.py\<close>. A tranche worth 200 with cost
  basis 100 and 50 of already-taxed accrual; 100 is withdrawn (half the tranche), the
  exemption fraction is 3/10, the bucket holds 8, the rate is 1/4. The claim's formula
  gives \<open>max 0 (max 0 (35 - 25) - 8) * 1/4 = 1/2\<close>; the simulator charges
  \<open>(35 - 8) * 1/4 = 27/4\<close>, because its tax line starts from the taxable gain before the
  accrual was taken off.
\<close>

theorem withdrawal_tax_ignores_accrual:
  "total_withdrawal_tax_paid (handle_withdrawals 12 (date_of_month 12) sim_entnahme) = 27 / 4
   \<and> sale_tax (sale_taxable_gain 100 50 (teilfreistellung (params sim_entnahme))) 25 8
        (full_tax_rate (params sim_entnahme)) = 1 / 2"
proof
  show "total_withdrawal_tax_paid (handle_withdrawals 12 (date_of_month 12) sim_entnahme)
      = 27 / 4"
    by (simp add: handle_withdrawals_def Let_def due_entnahme flags_entnahme depotwert_of_def
        loop_lot_b del: entnahme_loop.simps)
  show "sale_tax (sale_taxable_gain 100 50 (teilfreistellung (params sim_entnahme))) 25 8
        (full_tax_rate (params sim_entnahme)) = 1 / 2"
    by (simp add: sale_tax_def sale_taxable_gain_def sample_defs)
qed

section \<open>The allowance bucket\<close>

lemma vp_used_bounds:
  "0 \<le> freistellungs_topf s - vp_steuerfreibetrag_used entry s"
  "0 \<le> freistellungs_topf s \<Longrightarrow> 0 \<le> vp_steuerfreibetrag_used entry s"
  by (simp_all add: vp_steuerfreibetrag_used_def Let_def)

lemma topf_vorabpauschale_entry:
  "vorabpauschale_entry d entry s = (entry', s') \<Longrightarrow>
   freistellungs_topf s' = freistellungs_topf s - vp_steuerfreibetrag_used entry s"
  by (auto simp: vorabpauschale_entry_eq split: if_splits)

lemma topf_handle_taxes_loop:
  "handle_taxes_loop d es s = (es', s') \<Longrightarrow> 0 \<le> freistellungs_topf s \<Longrightarrow>
   0 \<le> freistellungs_topf s' \<and> freistellungs_topf s' \<le> freistellungs_topf s"
proof (induction es arbitrary: s es' s')
  case Nil
  then show ?case by simp
next
  case (Cons e es)
  obtain e1 s1 where step: "vorabpauschale_entry d e s = (e1, s1)"
    by (cases "vorabpauschale_entry d e s")
  obtain es2 s2 where rest: "handle_taxes_loop d es s1 = (es2, s2)"
    by (cases "handle_taxes_loop d es s1")
  have s2: "s' = s2" using Cons.prems(1) step rest by simp
  have t: "freistellungs_topf s1 = freistellungs_topf s - vp_steuerfreibetrag_used e s"
    using topf_vorabpauschale_entry [OF step] .
  have a: "0 \<le> freistellungs_topf s1" using t vp_used_bounds(1) [of s e] by simp
  have b: "freistellungs_topf s1 \<le> freistellungs_topf s"
    using t vp_used_bounds(2) [OF Cons.prems(2), of e] by simp
  from Cons.IH [OF rest a] b s2 show ?case by simp
qed

lemma topf_handle_taxes:
  assumes "0 \<le> freistellungs_topf s"
  shows "0 \<le> freistellungs_topf (handle_taxes d s) \<and>
         freistellungs_topf (handle_taxes d s) \<le> freistellungs_topf s"
proof (cases "handle_taxes_loop d (portfolio s) s")
  case (Pair pf s')
  from topf_handle_taxes_loop [OF Pair assms] assms show ?thesis
    by (simp add: handle_taxes_def Let_def Pair)
qed

lemma rb_steuerbarer_gewinn_nonneg: "0 \<le> rb_steuerbarer_gewinn entry r s"
  by (simp add: rb_steuerbarer_gewinn_def Let_def)

lemma rb_steuerfreibetrag_bounds:
  "0 \<le> freistellungs_topf s - rb_steuerfreibetrag entry r s"
  "0 \<le> freistellungs_topf s \<Longrightarrow> 0 \<le> rb_steuerfreibetrag entry r s"
  using rb_steuerbarer_gewinn_nonneg [of entry r s]
  by (simp_all add: rb_steuerfreibetrag_def)

lemma topf_rebalancing_tranche:
  "rebalancing_tranche entry l s = (l', s') \<Longrightarrow>
   freistellungs_topf s' = freistellungs_topf s - rb_steuerfreibetrag entry (remaining l) s"
  by (auto simp: rebalancing_tranche_def Let_def)

lemma topf_rebalancing_loop:
  "rebalancing_loop es l s = (rest, l', s') \<Longrightarrow> 0 \<le> freistellungs_topf s \<Longrightarrow>
   0 \<le> freistellungs_topf s' \<and> freistellungs_topf s' \<le> freistellungs_topf s"
proof (induction es l s arbitrary: rest l' s' rule: rebalancing_loop.induct)
  case (1 l s)
  then show ?case by simp
next
  case (2 entry es l s)
  show ?case
  proof (cases "remaining l > 1 / 1000000000")
    case False
    with "2.prems" show ?thesis by simp
  next
    case True
    show ?thesis
    proof (cases "val entry \<le> 0")
      case True
      with \<open>remaining l > 1 / 1000000000\<close> "2.prems" "2.IH"(1) show ?thesis by simp
    next
      case False
      obtain l1 s1 where step: "rebalancing_tranche entry l s = (l1, s1)"
        by (cases "rebalancing_tranche entry l s")
      have rest: "rebalancing_loop es l1 s1 = (rest, l', s')"
        using "2.prems"(1) True False step by simp
      have t: "freistellungs_topf s1
          = freistellungs_topf s - rb_steuerfreibetrag entry (remaining l) s"
        using topf_rebalancing_tranche [OF step] .
      have a: "0 \<le> freistellungs_topf s1"
        using t rb_steuerfreibetrag_bounds(1) [of s entry] by simp
      have b: "freistellungs_topf s1 \<le> freistellungs_topf s"
        using t rb_steuerfreibetrag_bounds(2) [OF "2.prems"(2), of entry] by simp
      from "2.IH"(2) [OF True False step [symmetric] rest a] b show ?thesis by simp
    qed
  qed
qed

lemma topf_handle_rebalancing:
  assumes "0 \<le> freistellungs_topf s"
  shows "0 \<le> freistellungs_topf (handle_rebalancing d s) \<and>
         freistellungs_topf (handle_rebalancing d s) \<le> freistellungs_topf s"
proof -
  obtain rest l' s' where loop: "rebalancing_loop (portfolio s)
      \<lparr>remaining = depotwert_of (portfolio s) * rebalancing_rate (params s), temp_queue = [],
       total_verkauf = 0, total_steuer = 0, total_netto = 0\<rparr> s = (rest, l', s')"
    by (metis prod_cases3)
  from topf_rebalancing_loop [OF loop assms] assms show ?thesis
    by (simp add: handle_rebalancing_def Let_def loop)
qed

lemma wd_nach_vp_nonneg: "0 \<le> wd_steuerbarer_gewinn_nach_vp entry r s"
  by (simp add: wd_steuerbarer_gewinn_nach_vp_def)

lemma wd_steuerfreibetrag_bounds:
  "0 \<le> freistellungs_topf s - wd_steuerfreibetrag_used entry r s"
  "0 \<le> freistellungs_topf s \<Longrightarrow> 0 \<le> wd_steuerfreibetrag_used entry r s"
  using wd_nach_vp_nonneg [of entry r s]
  by (simp_all add: wd_steuerfreibetrag_used_def)

lemma topf_entnahme_tranche:
  "entnahme_tranche d entry l s = (l', s') \<Longrightarrow>
   freistellungs_topf s' =
     (if versicherung_modus (params s) then freistellungs_topf s
      else freistellungs_topf s - wd_steuerfreibetrag_used entry (remaining_to_withdraw l) s)"
  by (auto simp: entnahme_tranche_def Let_def)

lemma topf_entnahme_loop:
  "entnahme_loop d es l s = (rest, l', s') \<Longrightarrow> 0 \<le> freistellungs_topf s \<Longrightarrow>
   0 \<le> freistellungs_topf s' \<and> freistellungs_topf s' \<le> freistellungs_topf s"
proof (induction d es l s arbitrary: rest l' s' rule: entnahme_loop.induct)
  case (1 d l s)
  then show ?case by simp
next
  case (2 d entry es l s)
  show ?case
  proof (cases "remaining_to_withdraw l > 1 / 1000000000")
    case False
    with "2.prems" show ?thesis by simp
  next
    case True
    show ?thesis
    proof (cases "val entry \<le> 0")
      case True
      with \<open>remaining_to_withdraw l > 1 / 1000000000\<close> "2.prems" "2.IH"(1) show ?thesis by simp
    next
      case False
      obtain l1 s1 where step: "entnahme_tranche d entry l s = (l1, s1)"
        by (cases "entnahme_tranche d entry l s")
      have rest: "entnahme_loop d es l1 s1 = (rest, l', s')"
        using "2.prems"(1) True False step by simp
      have a: "0 \<le> freistellungs_topf s1"
        using topf_entnahme_tranche [OF step] "2.prems"(2)
          wd_steuerfreibetrag_bounds(1) [of s entry "remaining_to_withdraw l"]
        by (simp split: if_splits)
      have b: "freistellungs_topf s1 \<le> freistellungs_topf s"
        using topf_entnahme_tranche [OF step]
          wd_steuerfreibetrag_bounds(2) [OF "2.prems"(2), of entry "remaining_to_withdraw l"]
        by (simp split: if_splits)
      from "2.IH"(2) [OF True False step [symmetric] rest a] b show ?thesis by simp
    qed
  qed
qed

lemma topf_handle_withdrawals:
  assumes "0 \<le> freistellungs_topf s"
  shows "0 \<le> freistellungs_topf (handle_withdrawals month d s) \<and>
         freistellungs_topf (handle_withdrawals month d s) \<le> freistellungs_topf s"
proof -
  obtain rest l' s' where loop: "entnahme_loop d (portfolio s)
      \<lparr>remaining_to_withdraw = entnahmebetrag_of (params s) d, netto_entnahme_summe = 0,
       total_withdrawal_tax_this_year = 0, wd_temp_queue = []\<rparr> s = (rest, l', s')"
    by (metis prod_cases3)
  from topf_entnahme_loop [OF loop assms] assms show ?thesis
    by (simp add: handle_withdrawals_def Let_def loop)
qed

lemma topf_sonderzahlung [simp]:
  "freistellungs_topf (sonderzahlung betrag d s) = freistellungs_topf s"
  by (simp add: sonderzahlung_def Let_def)

lemma topf_sparrate [simp]: "freistellungs_topf (sparrate d s) = freistellungs_topf s"
  by (simp add: sparrate_def Let_def)

lemma topf_handle_monthly_investment:
  "handle_monthly_investment month d s = Inr s' \<Longrightarrow>
   freistellungs_topf s' = freistellungs_topf s"
  by (auto simp: handle_monthly_investment_def Let_def split: if_splits)

lemma topf_kosten [simp]:
  "freistellungs_topf (kosten_stueckkosten d w s) = freistellungs_topf s"
  "freistellungs_topf (kosten_monatlich w s) = freistellungs_topf s"
  "freistellungs_topf (kosten_abschluss month d w s) = freistellungs_topf s"
  "freistellungs_topf (kosten_verwaltung month d w s) = freistellungs_topf s"
  by (simp_all add: kosten_stueckkosten_def kosten_monatlich_def kosten_abschluss_def
      kosten_verwaltung_def Let_def)

lemma topf_handle_costs [simp]:
  "freistellungs_topf (handle_costs month d s) = freistellungs_topf s"
  by (simp add: handle_costs_def Let_def)

lemma topf_misc [simp]:
  "freistellungs_topf (wertentwicklung r s) = freistellungs_topf s"
  "freistellungs_topf (log_monat d s) = freistellungs_topf s"
  "freistellungs_topf (jahresendwerte s) = freistellungs_topf s"
  by (simp_all add: wertentwicklung_def log_monat_def jahresendwerte_def Let_def)

lemma simuliere_monat_InrE:
  assumes "simuliere_monat month s = Inr s'"
  obtains s1 r where
    "handle_monthly_investment month (date_of_month month)
       (if d_month (date_of_month month) = 1 then freibetrag_januar (date_of_month month) s
        else s) = Inr s1"
    "monatsrendite month (handle_costs month (date_of_month month) s1) = Inr r"
    "month < length (monthly_inflation_rates
        (wertentwicklung r (handle_costs month (date_of_month month) s1)))"
    "s' = (let s3 = wertentwicklung r (handle_costs month (date_of_month month) s1);
               s4 = s3\<lparr>kumulierte_inflation_factor :=
                        kumulierte_inflation_factor s3 * (1 + monthly_inflation_rates s3 ! month)\<rparr>;
               s8 = log_monat (date_of_month month)
                      (handle_withdrawals month (date_of_month month)
                         (handle_rebalancing (date_of_month month)
                            (handle_taxes (date_of_month month) s4)))
           in if d_month (date_of_month month) = 12 then jahresendwerte s8 else s8)"
  using assms unfolding simuliere_monat_def Let_def
  by (auto split: sum.splits if_splits)

lemma topf_simuliere_monat:
  assumes run: "simuliere_monat month s = Inr s'"
    and nn: "0 \<le> freistellungs_topf
       (if d_month (date_of_month month) = 1 then freibetrag_januar (date_of_month month) s
        else s)"
  shows "0 \<le> freistellungs_topf s' \<and>
         freistellungs_topf s' \<le> freistellungs_topf
           (if d_month (date_of_month month) = 1 then freibetrag_januar (date_of_month month) s
            else s)"
proof -
  let ?d = "date_of_month month"
  let ?s0 = "if d_month ?d = 1 then freibetrag_januar ?d s else s"
  from run obtain s1 r where
    inv: "handle_monthly_investment month ?d ?s0 = Inr s1"
    and s': "s' = (let s3 = wertentwicklung r (handle_costs month ?d s1);
               s4 = s3\<lparr>kumulierte_inflation_factor :=
                        kumulierte_inflation_factor s3 * (1 + monthly_inflation_rates s3 ! month)\<rparr>;
               s8 = log_monat ?d (handle_withdrawals month ?d
                         (handle_rebalancing ?d (handle_taxes ?d s4)))
           in if d_month ?d = 12 then jahresendwerte s8 else s8)"
    by (rule simuliere_monat_InrE)
  let ?s3 = "wertentwicklung r (handle_costs month ?d s1)"
  let ?s4 = "?s3\<lparr>kumulierte_inflation_factor :=
      kumulierte_inflation_factor ?s3 * (1 + monthly_inflation_rates ?s3 ! month)\<rparr>"
  have t4: "freistellungs_topf ?s4 = freistellungs_topf ?s0"
    using topf_handle_monthly_investment [OF inv] by simp
  have n4: "0 \<le> freistellungs_topf ?s4" using t4 nn by simp
  note a = topf_handle_taxes [OF n4, of ?d]
  note b = topf_handle_rebalancing [OF a [THEN conjunct1], of ?d]
  note c = topf_handle_withdrawals [OF b [THEN conjunct1], of month ?d]
  have "freistellungs_topf s' = freistellungs_topf
      (handle_withdrawals month ?d (handle_rebalancing ?d (handle_taxes ?d ?s4)))"
    unfolding s' Let_def by simp
  with a b c t4 show ?thesis by linarith
qed

section \<open>The inputs are read-only after initialisation\<close>

lemma inputs_sonderzahlung [simp]: "inputs (sonderzahlung betrag d s) = inputs s"
  by (simp add: inputs_def sonderzahlung_def Let_def)

lemma inputs_sparrate [simp]: "inputs (sparrate d s) = inputs s"
  by (simp add: inputs_def sparrate_def Let_def)

lemma inputs_updates [simp]:
  "inputs (s\<lparr>self_monthly_investment := x\<rparr>) = inputs s"
  "inputs (s\<lparr>kumulierte_inflation_factor := k\<rparr>) = inputs s"
  "inputs (s\<lparr>portfolio := pf\<rparr>) = inputs s"
  by (simp_all add: inputs_def)

lemma inputs_handle_monthly_investment:
  "handle_monthly_investment month d s = Inr s' \<Longrightarrow> inputs s' = inputs s"
  by (auto simp: handle_monthly_investment_def Let_def split: if_splits)

lemma inputs_kosten [simp]:
  "inputs (kosten_stueckkosten d w s) = inputs s"
  "inputs (kosten_monatlich w s) = inputs s"
  "inputs (kosten_abschluss month d w s) = inputs s"
  "inputs (kosten_verwaltung month d w s) = inputs s"
  by (simp_all add: inputs_def kosten_stueckkosten_def kosten_monatlich_def kosten_abschluss_def
      kosten_verwaltung_def Let_def)

lemma inputs_handle_costs [simp]: "inputs (handle_costs month d s) = inputs s"
  by (simp add: handle_costs_def Let_def)

lemma inputs_misc [simp]:
  "inputs (wertentwicklung r s) = inputs s"
  "inputs (log_monat d s) = inputs s"
  "inputs (jahresendwerte s) = inputs s"
  "inputs (freibetrag_januar d s) = inputs s"
  by (simp_all add: inputs_def wertentwicklung_def log_monat_def jahresendwerte_def
      freibetrag_januar_def Let_def)

lemma inputs_vorabpauschale_entry:
  "vorabpauschale_entry d entry s = (entry', s') \<Longrightarrow> inputs s' = inputs s"
  by (auto simp: vorabpauschale_entry_eq inputs_def split: if_splits)

lemma inputs_handle_taxes_loop:
  "handle_taxes_loop d es s = (es', s') \<Longrightarrow> inputs s' = inputs s"
proof (induction es arbitrary: s es' s')
  case Nil
  then show ?case by simp
next
  case (Cons e es)
  obtain e1 s1 where step: "vorabpauschale_entry d e s = (e1, s1)"
    by (cases "vorabpauschale_entry d e s")
  obtain es2 s2 where rest: "handle_taxes_loop d es s1 = (es2, s2)"
    by (cases "handle_taxes_loop d es s1")
  have "s' = s2" using Cons.prems step rest by simp
  with Cons.IH [OF rest] inputs_vorabpauschale_entry [OF step] show ?case by simp
qed

lemma inputs_handle_taxes [simp]: "inputs (handle_taxes d s) = inputs s"
proof (cases "handle_taxes_loop d (portfolio s) s")
  case (Pair pf s')
  from inputs_handle_taxes_loop [OF Pair] show ?thesis
    by (simp add: handle_taxes_def Let_def Pair)
qed

lemma inputs_rebalancing_tranche:
  "rebalancing_tranche entry l s = (l', s') \<Longrightarrow> inputs s' = inputs s"
  by (auto simp: rebalancing_tranche_def Let_def inputs_def)

lemma inputs_rebalancing_loop:
  "rebalancing_loop es l s = (rest, l', s') \<Longrightarrow> inputs s' = inputs s"
proof (induction es l s arbitrary: rest l' s' rule: rebalancing_loop.induct)
  case (1 l s)
  then show ?case by simp
next
  case (2 entry es l s)
  show ?case
  proof (cases "remaining l > 1 / 1000000000")
    case False
    with "2.prems" show ?thesis by simp
  next
    case True
    show ?thesis
    proof (cases "val entry \<le> 0")
      case True
      with \<open>remaining l > 1 / 1000000000\<close> "2.prems" "2.IH"(1) show ?thesis by simp
    next
      case False
      obtain l1 s1 where step: "rebalancing_tranche entry l s = (l1, s1)"
        by (cases "rebalancing_tranche entry l s")
      have rest: "rebalancing_loop es l1 s1 = (rest, l', s')"
        using "2.prems" True False step by simp
      from "2.IH"(2) [OF True False step [symmetric] rest] inputs_rebalancing_tranche [OF step]
      show ?thesis by simp
    qed
  qed
qed

lemma inputs_handle_rebalancing [simp]: "inputs (handle_rebalancing d s) = inputs s"
proof -
  obtain rest l' s' where loop: "rebalancing_loop (portfolio s)
      \<lparr>remaining = depotwert_of (portfolio s) * rebalancing_rate (params s), temp_queue = [],
       total_verkauf = 0, total_steuer = 0, total_netto = 0\<rparr> s = (rest, l', s')"
    by (metis prod_cases3)
  from inputs_rebalancing_loop [OF loop] show ?thesis
    by (simp add: handle_rebalancing_def Let_def loop inputs_def)
qed

lemma inputs_entnahme_tranche:
  "entnahme_tranche d entry l s = (l', s') \<Longrightarrow> inputs s' = inputs s"
  by (auto simp: entnahme_tranche_def Let_def inputs_def)

lemma inputs_entnahme_loop:
  "entnahme_loop d es l s = (rest, l', s') \<Longrightarrow> inputs s' = inputs s"
proof (induction d es l s arbitrary: rest l' s' rule: entnahme_loop.induct)
  case (1 d l s)
  then show ?case by simp
next
  case (2 d entry es l s)
  show ?case
  proof (cases "remaining_to_withdraw l > 1 / 1000000000")
    case False
    with "2.prems" show ?thesis by simp
  next
    case True
    show ?thesis
    proof (cases "val entry \<le> 0")
      case True
      with \<open>remaining_to_withdraw l > 1 / 1000000000\<close> "2.prems" "2.IH"(1) show ?thesis by simp
    next
      case False
      obtain l1 s1 where step: "entnahme_tranche d entry l s = (l1, s1)"
        by (cases "entnahme_tranche d entry l s")
      have rest: "entnahme_loop d es l1 s1 = (rest, l', s')"
        using "2.prems" True False step by simp
      from "2.IH"(2) [OF True False step [symmetric] rest] inputs_entnahme_tranche [OF step]
      show ?thesis by simp
    qed
  qed
qed

lemma inputs_handle_withdrawals [simp]: "inputs (handle_withdrawals month d s) = inputs s"
proof -
  obtain rest l' s' where loop: "entnahme_loop d (portfolio s)
      \<lparr>remaining_to_withdraw = entnahmebetrag_of (params s) d, netto_entnahme_summe = 0,
       total_withdrawal_tax_this_year = 0, wd_temp_queue = []\<rparr> s = (rest, l', s')"
    by (metis prod_cases3)
  from inputs_entnahme_loop [OF loop] show ?thesis
    by (simp add: handle_withdrawals_def Let_def loop inputs_def)
qed

lemma inputs_simuliere_monat:
  assumes "simuliere_monat month s = Inr s'"
  shows "inputs s' = inputs s"
proof -
  from assms obtain s1 r where
    inv: "handle_monthly_investment month (date_of_month month)
       (if d_month (date_of_month month) = 1 then freibetrag_januar (date_of_month month) s
        else s) = Inr s1"
    and s': "s' = (let s3 = wertentwicklung r (handle_costs month (date_of_month month) s1);
               s4 = s3\<lparr>kumulierte_inflation_factor :=
                        kumulierte_inflation_factor s3 * (1 + monthly_inflation_rates s3 ! month)\<rparr>;
               s8 = log_monat (date_of_month month)
                      (handle_withdrawals month (date_of_month month)
                         (handle_rebalancing (date_of_month month)
                            (handle_taxes (date_of_month month) s4)))
           in if d_month (date_of_month month) = 12 then jahresendwerte s8 else s8)"
    by (rule simuliere_monat_InrE)
  have "inputs s1 = inputs s" using inputs_handle_monthly_investment [OF inv]
    by (simp split: if_splits)
  then show ?thesis unfolding s' Let_def by simp
qed

lemma inputs_simuliere_monate:
  "simuliere_monate months s = Inr s' \<Longrightarrow> inputs s' = inputs s"
proof (induction months arbitrary: s)
  case Nil
  then show ?case by simp
next
  case (Cons m months)
  then show ?case
    by (auto split: sum.splits dest: inputs_simuliere_monat)
qed

lemma inputs_finalisiere [simp]: "inputs (finalisiere_simulation s) = inputs s"
  by (simp add: finalisiere_simulation_def Let_def inputs_def log_monat_def)

section \<open>A run returns\<close>

lemma monat_ok_inputs: "inputs s' = inputs s \<Longrightarrow> monat_ok month s' = monat_ok month s"
  by (simp add: monat_ok_def inputs_def)

lemma simuliere_monat_returns:
  assumes "monat_ok month s"
  shows "\<exists>s'. simuliere_monat month s = Inr s'"
proof -
  let ?d = "date_of_month month"
  let ?s0 = "if d_month ?d = 1 then freibetrag_januar ?d s else s"
  have i0: "inputs ?s0 = inputs s" by simp
  have "month = 0 \<or> dynamik_turnus_monate (params ?s0) \<noteq> 0"
    using assms i0 by (auto simp: monat_ok_def inputs_def)
  then obtain s1 where inv: "handle_monthly_investment month ?d ?s0 = Inr s1"
    unfolding handle_monthly_investment_def Let_def by (simp split: if_splits)
  have i1: "inputs s1 = inputs s" using inputs_handle_monthly_investment [OF inv] i0 by simp
  let ?s2 = "handle_costs month ?d s1"
  have i2: "inputs ?s2 = inputs s" using i1 by simp
  have ok2: "monat_ok month ?s2" using assms monat_ok_inputs [OF i2] by simp
  then obtain r where r: "monatsrendite month ?s2 = Inr r"
    by (auto simp: monat_ok_def monatsrendite_def split: option.splits list.splits)
  have len: "month < length (monthly_inflation_rates (wertentwicklung r ?s2))"
    using ok2 by (simp add: monat_ok_def wertentwicklung_def)
  show ?thesis
    unfolding simuliere_monat_def Let_def using inv r len by simp
qed

lemma simuliere_monate_returns:
  "(\<forall>m \<in> set months. monat_ok m s) \<Longrightarrow> \<exists>s'. simuliere_monate months s = Inr s'"
proof (induction months arbitrary: s)
  case Nil
  then show ?case by simp
next
  case (Cons m months)
  from Cons.prems have "monat_ok m s" by simp
  then obtain s1 where step: "simuliere_monat m s = Inr s1"
    using simuliere_monat_returns by blast
  have "\<forall>k \<in> set months. monat_ok k s1"
    using Cons.prems monat_ok_inputs [OF inputs_simuliere_monat [OF step]] by simp
  from Cons.IH [OF this] step show ?case by simp
qed

section \<open>The initialisation, half by half\<close>

lemma initialisiere_simulation_eq:
  "initialisiere_simulation s = init_einzahlung (init_modus s)"
  unfolding initialisiere_simulation_def init_einzahlung_def init_modus_def Let_def
  by (rule refl)

lemma params_init_einzahlung [simp]: "params (init_einzahlung s) = params s"
  by (simp add: init_einzahlung_def Let_def)

lemma params_init_modus:
  "params (init_modus s) =
     (if versicherung_modus (params s) then
        (params s)\<lparr>monthly_return := (1 + annual_return (params s)) powr (1 / 12) - 1,
                   full_tax_rate := abgeltungssteuer_rate (params s) *
                     (1 + soli_zuschlag_on_abgeltungssteuer (params s)
                        + kirchensteuer_on_abgeltungssteuer (params s)),
                   ausgabeaufschlag := 0, ruecknahmeabschlag := 0, stueckkosten := 0\<rparr>
      else
        (params s)\<lparr>monthly_return := (1 + annual_return (params s)) powr (1 / 12) - 1,
                   full_tax_rate := abgeltungssteuer_rate (params s) *
                     (1 + soli_zuschlag_on_abgeltungssteuer (params s)
                        + kirchensteuer_on_abgeltungssteuer (params s)),
                   abschlusskosten_einmalig_prozent := 0,
                   abschlusskosten_monatlich_prozent := 0,
                   verwaltungskosten_monatlich_prozent := 0, guthabenkosten := 0\<rparr>)"
  by (simp add: init_modus_def Let_def)

lemma inputs_init_einzahlung [simp]:
  "dynamic_returns (init_einzahlung s) = dynamic_returns s"
  "monthly_inflation_rates (init_einzahlung s) = monthly_inflation_rates s"
  "freistellungs_topf (init_einzahlung s) = freistellungs_topf s"
  by (simp_all add: init_einzahlung_def Let_def)

lemma inputs_init_modus [simp]:
  "dynamic_returns (init_modus s) = dynamic_returns s"
  "monthly_inflation_rates (init_modus s) = monthly_inflation_rates s"
  "freistellungs_topf (init_modus s) = freistellungs_topf s"
  by (simp_all add: init_modus_def Let_def)

lemma inputs_initialisiere:
  "dynamic_returns (initialisiere_simulation s) = dynamic_returns s"
  "monthly_inflation_rates (initialisiere_simulation s) = monthly_inflation_rates s"
  "laufzeit (params (initialisiere_simulation s)) = laufzeit (params s)"
  "dynamik_turnus_monate (params (initialisiere_simulation s)) = dynamik_turnus_monate (params s)"
  by (simp_all add: initialisiere_simulation_eq params_init_modus)

lemma run_simulation_returns:
  assumes "\<forall>m < nat (laufzeit (params s) * 12). monat_ok m s"
  shows "\<exists>s'. run_simulation s = Inr s'"
proof -
  let ?s0 = "initialisiere_simulation s"
  have "\<forall>m \<in> set [0 ..< nat (laufzeit (params ?s0) * 12)]. monat_ok m ?s0"
    using assms by (simp add: monat_ok_def inputs_initialisiere)
  from simuliere_monate_returns [OF this] show ?thesis
    by (auto simp: run_simulation_def Let_def)
qed

section \<open>The parameter object\<close>

lemma params_initialisiere:
  "params (initialisiere_simulation s) =
     (if versicherung_modus (params s) then
        (params s)\<lparr>monthly_return := (1 + annual_return (params s)) powr (1 / 12) - 1,
                   full_tax_rate := abgeltungssteuer_rate (params s) *
                     (1 + soli_zuschlag_on_abgeltungssteuer (params s)
                        + kirchensteuer_on_abgeltungssteuer (params s)),
                   ausgabeaufschlag := 0, ruecknahmeabschlag := 0, stueckkosten := 0\<rparr>
      else
        (params s)\<lparr>monthly_return := (1 + annual_return (params s)) powr (1 / 12) - 1,
                   full_tax_rate := abgeltungssteuer_rate (params s) *
                     (1 + soli_zuschlag_on_abgeltungssteuer (params s)
                        + kirchensteuer_on_abgeltungssteuer (params s)),
                   abschlusskosten_einmalig_prozent := 0,
                   abschlusskosten_monatlich_prozent := 0,
                   verwaltungskosten_monatlich_prozent := 0, guthabenkosten := 0\<rparr>)"
  unfolding initialisiere_simulation_eq params_init_einzahlung by (rule params_init_modus)

lemma params_run_simulation:
  assumes "run_simulation s = Inr s'"
  shows "params s' = params (initialisiere_simulation s)"
proof -
  from assms obtain s1 where
    loop: "simuliere_monate [0 ..< nat (laufzeit (params (initialisiere_simulation s)) * 12)]
             (initialisiere_simulation s) = Inr s1"
    and s': "s' = finalisiere_simulation s1"
    by (auto simp: run_simulation_def Let_def split: sum.splits)
  have "inputs s' = inputs (initialisiere_simulation s)"
    using inputs_simuliere_monate [OF loop] s' by simp
  then show ?thesis by (simp add: inputs_def)
qed

section \<open>Claim C8: the parameter object during a run\<close>

lemma sim_police_returns: "\<exists>s'. run_simulation sim_police = Inr s'"
  by (rule run_simulation_returns) (simp add: monat_ok_def sample_defs)

lemma sim_neu_returns: "\<exists>s'. run_simulation sim_neu = Inr s'"
  by (rule run_simulation_returns) (simp add: monat_ok_def sample_defs)

text \<open>
  Claim C8, as stated, fails: \<^verbatim>\<open>_initialisiere_simulation\<close> writes to
  \<^verbatim>\<open>self.params\<close>. An insurance scenario constructed with an entry load of 5 percent
  has an entry load of 0 in its parameters after the run.
\<close>

theorem params_mutated_counterexample:
  "\<not> isl (run_simulation sim_police)
   \<and> ausgabeaufschlag (params sim_police) = 1 / 20
   \<and> ausgabeaufschlag (params (projr (run_simulation sim_police))) = 0"
proof -
  from sim_police_returns obtain s' where run: "run_simulation sim_police = Inr s'" ..
  have "ausgabeaufschlag (params s') = 0"
    unfolding params_run_simulation [OF run] params_initialisiere
    by (simp add: sample_defs)
  moreover have "ausgabeaufschlag (params sim_police) = 1 / 20"
    by (simp add: sample_defs)
  ultimately show ?thesis by (simp add: run)
qed

text \<open>
  Claim C8, amended. A run writes to the parameter object in
  \<^verbatim>\<open>_initialisiere_simulation\<close> only: it attaches the derived \<^verbatim>\<open>monthly_return\<close>
  and \<^verbatim>\<open>full_tax_rate\<close> and sets to zero the cost fields that do not apply to the
  mode (insurance: \<^verbatim>\<open>ausgabeaufschlag\<close>, \<^verbatim>\<open>ruecknahmeabschlag\<close>,
  \<^verbatim>\<open>stueckkosten\<close>; depot: \<^verbatim>\<open>abschlusskosten_einmalig_prozent\<close>,
  \<^verbatim>\<open>abschlusskosten_monatlich_prozent\<close>, \<^verbatim>\<open>verwaltungskosten_monatlich_prozent\<close>,
  \<^verbatim>\<open>guthabenkosten\<close>). Every other field holds after \<^verbatim>\<open>run_simulation\<close> the
  value it had at construction.
\<close>

theorem params_after_run:
  assumes "run_simulation s = Inr s'"
  shows "params s' =
     (if versicherung_modus (params s) then
        (params s)\<lparr>monthly_return := (1 + annual_return (params s)) powr (1 / 12) - 1,
                   full_tax_rate := abgeltungssteuer_rate (params s) *
                     (1 + soli_zuschlag_on_abgeltungssteuer (params s)
                        + kirchensteuer_on_abgeltungssteuer (params s)),
                   ausgabeaufschlag := 0, ruecknahmeabschlag := 0, stueckkosten := 0\<rparr>
      else
        (params s)\<lparr>monthly_return := (1 + annual_return (params s)) powr (1 / 12) - 1,
                   full_tax_rate := abgeltungssteuer_rate (params s) *
                     (1 + soli_zuschlag_on_abgeltungssteuer (params s)
                        + kirchensteuer_on_abgeltungssteuer (params s)),
                   abschlusskosten_einmalig_prozent := 0,
                   abschlusskosten_monatlich_prozent := 0,
                   verwaltungskosten_monatlich_prozent := 0, guthabenkosten := 0\<rparr>)"
  using params_run_simulation [OF assms] params_initialisiere [of s] by simp

theorem params_after_run_witness:
  "\<not> isl (run_simulation sim_neu)
   \<and> params (projr (run_simulation sim_neu)) =
       params_depot\<lparr>monthly_return := 0, full_tax_rate := 1 / 4,
                    abschlusskosten_einmalig_prozent := 0,
                    abschlusskosten_monatlich_prozent := 0,
                    verwaltungskosten_monatlich_prozent := 0, guthabenkosten := 0\<rparr>"
proof -
  from sim_neu_returns obtain s' where run: "run_simulation sim_neu = Inr s'" ..
  have p: "params sim_neu = params_depot" by (simp add: sim_neu_def new_simulator_def)
  have v: "versicherung_modus params_depot = False" "annual_return params_depot = 0"
    "abgeltungssteuer_rate params_depot = 1 / 4"
    "soli_zuschlag_on_abgeltungssteuer params_depot = 0"
    "kirchensteuer_on_abgeltungssteuer params_depot = 0"
    by (simp_all add: params_depot_def)
  from params_after_run [OF run] show ?thesis
    by (simp add: run p v)
qed

section \<open>Claim C5: the allowance bucket over a month\<close>

lemma sim_lauf_fields:
  "freistellungs_topf sim_lauf = 8"
  "freistellungsauftrag_jahr (params sim_lauf) = 8"
  "freistellungs_pauschbetrag_anpassung_rate (params sim_lauf) = 0"
  "dynamik_turnus_monate (params sim_lauf) = 12"
  "dynamic_returns sim_lauf = None"
  "monthly_inflation_rates sim_lauf = replicate 24 0"
  by (simp_all add: sim_lauf_def Let_def initialisiere_simulation_eq params_init_modus
      new_simulator_def params_depot_def)

lemma sim_lauf_ok: "monat_ok 12 sim_lauf" "monat_ok 2 sim_lauf"
  by (simp_all add: monat_ok_def sim_lauf_fields)

lemma simuliere_monat_halves:
  "simuliere_monat month s =
     (case monat_vor_steuern month s of
        Inl e \<Rightarrow> Inl e
      | Inr s4 \<Rightarrow> Inr (monat_ab_steuern month s4))"
  by (simp add: simuliere_monat_def monat_vor_steuern_def monat_ab_steuern_def Let_def
      split: sum.splits)

lemma topf_monat_vor_steuern:
  assumes "monat_vor_steuern month s = Inr s4"
  shows "freistellungs_topf s4 = freistellungs_topf
           (if d_month (date_of_month month) = 1 then freibetrag_januar (date_of_month month) s
            else s)"
proof -
  let ?d = "date_of_month month"
  let ?s0 = "if d_month ?d = 1 then freibetrag_januar ?d s else s"
  from assms obtain s1 r where
    inv: "handle_monthly_investment month ?d ?s0 = Inr s1"
    and s4: "s4 = (let s3 = wertentwicklung r (handle_costs month ?d s1)
               in s3\<lparr>kumulierte_inflation_factor :=
                        kumulierte_inflation_factor s3 * (1 + monthly_inflation_rates s3 ! month)\<rparr>)"
    unfolding monat_vor_steuern_def Let_def
    by (auto split: sum.splits if_splits)
  show ?thesis
    unfolding s4 Let_def using topf_handle_monthly_investment [OF inv] by simp
qed

text \<open>
  Claim C5. In a January the month step sets the allowance bucket to the indexed annual
  allowance before anything consumes it: the state that reaches the first tax handler
  holds exactly \<open>freistellungsauftrag_jahr * (1 + rate) ^ (year - 2025)\<close>, whatever the
  bucket held before, and the month ends between zero and that value. Over a simulated
  month that is not a January the bucket does not increase and stays non-negative (given
  that it was non-negative, as it is after any January reset with a non-negative
  allowance). After every single consumption (accrual tax on a tranche, tax on a tranche
  sold in a rebalancing or in a depot withdrawal) the bucket is non-negative.
\<close>

theorem freistellungs_topf_bucket:
  assumes run: "simuliere_monat month s = Inr s'"
  shows "(d_month (date_of_month month) \<noteq> 1 \<and> 0 \<le> freistellungs_topf s \<longrightarrow>
            0 \<le> freistellungs_topf s' \<and> freistellungs_topf s' \<le> freistellungs_topf s)
       \<and> (d_month (date_of_month month) = 1 \<longrightarrow>
            (\<exists>s4. monat_vor_steuern month s = Inr s4 \<and> s' = monat_ab_steuern month s4 \<and>
               freistellungs_topf s4 = freistellungsauftrag_jahr (params s) *
                 (1 + freistellungs_pauschbetrag_anpassung_rate (params s))
                   ^ nat (d_year (date_of_month month) - 2025)))
       \<and> (d_month (date_of_month month) = 1 \<and> 0 \<le> freistellungsauftrag_jahr (params s)
            \<and> - 1 \<le> freistellungs_pauschbetrag_anpassung_rate (params s) \<longrightarrow>
            0 \<le> freistellungs_topf s' \<and>
            freistellungs_topf s' \<le> freistellungsauftrag_jahr (params s) *
              (1 + freistellungs_pauschbetrag_anpassung_rate (params s))
                ^ nat (d_year (date_of_month month) - 2025))
       \<and> (\<forall>d entry s0. 0 \<le> freistellungs_topf (snd (vorabpauschale_entry d entry s0)))
       \<and> (\<forall>entry l s0. 0 \<le> freistellungs_topf (snd (rebalancing_tranche entry l s0)))
       \<and> (\<forall>d entry l s0. \<not> versicherung_modus (params s0) \<longrightarrow>
             0 \<le> freistellungs_topf (snd (entnahme_tranche d entry l s0)))"
proof (intro conjI allI impI)
  assume a: "d_month (date_of_month month) \<noteq> 1 \<and> 0 \<le> freistellungs_topf s"
  with topf_simuliere_monat [OF run]
  show "0 \<le> freistellungs_topf s'" "freistellungs_topf s' \<le> freistellungs_topf s"
    by simp_all
next
  assume jan: "d_month (date_of_month month) = 1"
  from run obtain s4 where v: "monat_vor_steuern month s = Inr s4"
    and s': "s' = monat_ab_steuern month s4"
    unfolding simuliere_monat_halves by (auto split: sum.splits)
  from topf_monat_vor_steuern [OF v] jan
  have "freistellungs_topf s4 = freistellungsauftrag_jahr (params s) *
                 (1 + freistellungs_pauschbetrag_anpassung_rate (params s))
                   ^ nat (d_year (date_of_month month) - 2025)"
    by (simp add: freibetrag_januar_def)
  with v s'
  show "\<exists>s4. monat_vor_steuern month s = Inr s4 \<and> s' = monat_ab_steuern month s4 \<and>
               freistellungs_topf s4 = freistellungsauftrag_jahr (params s) *
                 (1 + freistellungs_pauschbetrag_anpassung_rate (params s))
                   ^ nat (d_year (date_of_month month) - 2025)"
    by blast
next
  assume a: "d_month (date_of_month month) = 1 \<and> 0 \<le> freistellungsauftrag_jahr (params s)
            \<and> - 1 \<le> freistellungs_pauschbetrag_anpassung_rate (params s)"
  then have "0 \<le> freistellungsauftrag_jahr (params s) *
              (1 + freistellungs_pauschbetrag_anpassung_rate (params s))
                ^ nat (d_year (date_of_month month) - 2025)"
    by simp
  with a topf_simuliere_monat [OF run]
  show "0 \<le> freistellungs_topf s'"
    "freistellungs_topf s' \<le> freistellungsauftrag_jahr (params s) *
              (1 + freistellungs_pauschbetrag_anpassung_rate (params s))
                ^ nat (d_year (date_of_month month) - 2025)"
    by (simp_all add: freibetrag_januar_def)
next
  fix d entry s0
  show "0 \<le> freistellungs_topf (snd (vorabpauschale_entry d entry s0))"
    using topf_vorabpauschale_entry [of d entry s0] vp_used_bounds(1) [of s0 entry]
    by (cases "vorabpauschale_entry d entry s0") simp
next
  fix entry l s0
  show "0 \<le> freistellungs_topf (snd (rebalancing_tranche entry l s0))"
    using topf_rebalancing_tranche [of entry l s0]
      rb_steuerfreibetrag_bounds(1) [of s0 entry "remaining l"]
    by (cases "rebalancing_tranche entry l s0") simp
next
  fix d entry l and s0 :: simulator
  assume "\<not> versicherung_modus (params s0)"
  then show "0 \<le> freistellungs_topf (snd (entnahme_tranche d entry l s0))"
    using topf_entnahme_tranche [of d entry l s0]
      wd_steuerfreibetrag_bounds(1) [of s0 entry "remaining_to_withdraw l"]
    by (cases "entnahme_tranche d entry l s0") simp
qed

theorem freistellungs_topf_bucket_witness:
  "\<not> isl (simuliere_monat 12 sim_lauf) \<and> d_month (date_of_month 12) = 1
   \<and> 0 \<le> freistellungsauftrag_jahr (params sim_lauf)
   \<and> - 1 \<le> freistellungs_pauschbetrag_anpassung_rate (params sim_lauf)
   \<and> \<not> isl (monat_vor_steuern 12 (sim_lauf\<lparr>freistellungs_topf := 3\<rparr>))
   \<and> freistellungs_topf (projr (monat_vor_steuern 12 (sim_lauf\<lparr>freistellungs_topf := 3\<rparr>))) = 8
   \<and> projr (simuliere_monat 12 (sim_lauf\<lparr>freistellungs_topf := 3\<rparr>))
       = monat_ab_steuern 12 (projr (monat_vor_steuern 12 (sim_lauf\<lparr>freistellungs_topf := 3\<rparr>)))
   \<and> 0 \<le> freistellungs_topf (projr (simuliere_monat 12 sim_lauf))
   \<and> freistellungs_topf (projr (simuliere_monat 12 sim_lauf)) \<le> 8
   \<and> \<not> isl (simuliere_monat 2 sim_lauf) \<and> d_month (date_of_month 2) \<noteq> 1
   \<and> 0 \<le> freistellungs_topf sim_lauf
   \<and> 0 \<le> freistellungs_topf (projr (simuliere_monat 2 sim_lauf))
   \<and> freistellungs_topf (projr (simuliere_monat 2 sim_lauf)) \<le> freistellungs_topf sim_lauf"
proof -
  let ?s3 = "sim_lauf\<lparr>freistellungs_topf := 3\<rparr>"
  from simuliere_monat_returns [OF sim_lauf_ok(1)]
  obtain s12 where r12: "simuliere_monat 12 sim_lauf = Inr s12" ..
  from simuliere_monat_returns [OF sim_lauf_ok(2)]
  obtain s2 where r1: "simuliere_monat 2 sim_lauf = Inr s2" ..
  have "monat_ok 12 ?s3" using sim_lauf_ok(1) by (simp add: monat_ok_def)
  from simuliere_monat_returns [OF this]
  obtain t12 where q12: "simuliere_monat 12 ?s3 = Inr t12" ..
  have d: "d_month (date_of_month 12) = 1" "d_month (date_of_month 2) = 3"
    "nat (d_year (date_of_month 12) - 2025) = 1"
    by (simp_all add: date_of_month_def)
  from freistellungs_topf_bucket [OF q12] d(1)
  obtain s4 where v: "monat_vor_steuern 12 ?s3 = Inr s4" "t12 = monat_ab_steuern 12 s4"
    "freistellungs_topf s4 = freistellungsauftrag_jahr (params ?s3) *
       (1 + freistellungs_pauschbetrag_anpassung_rate (params ?s3))
         ^ nat (d_year (date_of_month 12) - 2025)"
    by blast
  from freistellungs_topf_bucket [OF r12] freistellungs_topf_bucket [OF r1] v show ?thesis
    by (simp add: r12 r1 q12 d sim_lauf_fields)
qed

section \<open>Claim C9: the worst three years\<close>

lemma groupby_years_range:
  assumes "set (map fst xs) = {lo..hi}"
  shows "groupby_years xs = [lo..hi]"
proof -
  have "sorted (groupby_years xs)" "distinct (groupby_years xs)"
    "set (groupby_years xs) = set [lo..hi]"
    using assms by (simp_all add: groupby_years_def)
  then show ?thesis
    using sorted_distinct_set_unique [of "groupby_years xs" "[lo..hi]"] by simp
qed

lemma returns_by_year_range:
  assumes "set (map fst xs) = {lo..hi}"
  shows "returns_by_year xs = map (\<lambda>y. (y, annual_return_of xs y)) [lo..hi]"
  by (simp add: returns_by_year_def groupby_years_range [OF assms] annual_return_of_def)

lemma upto_two: "lo + 1 \<le> hi \<Longrightarrow> [lo..hi] = lo # (lo + 1) # [lo + 2..hi]"
proof -
  assume a: "lo + 1 \<le> hi"
  then have "[lo..hi] = lo # [lo + 1..hi]" by (intro upto_rec1) simp
  also from a have "[lo + 1..hi] = (lo + 1) # [lo + 1 + 1..hi]" by (intro upto_rec1)
  also have "lo + 1 + 1 = lo + 2" by simp
  finally show ?thesis .
qed

lemma upto_three:
  "lo + 2 \<le> hi \<Longrightarrow> [lo..hi] = lo # (lo + 1) # (lo + 2) # [lo + 3..hi]"
proof -
  assume a: "lo + 2 \<le> hi"
  then have "[lo..hi] = lo # (lo + 1) # [lo + 2..hi]" by (intro upto_two) simp
  also from a have "[lo + 2..hi] = (lo + 2) # [lo + 2 + 1..hi]" by (intro upto_rec1)
  also have "lo + 2 + 1 = lo + 3" by simp
  finally show ?thesis .
qed

lemma rolling_windows_range:
  "rolling_windows (map (\<lambda>y. (y, R y)) [lo..hi]) =
     map (\<lambda>y. (y + 2, Some ((1 + R y) * (1 + R (y + 1)) * (1 + R (y + 2)) - 1))) [lo..hi - 2]"
proof (induction "nat (hi - lo + 1)" arbitrary: lo)
  case 0
  then have "hi < lo" by simp
  then show ?case by simp
next
  case (Suc n)
  then have le: "lo \<le> hi" by simp
  have ih: "rolling_windows (map (\<lambda>y. (y, R y)) [lo + 1..hi]) =
     map (\<lambda>y. (y + 2, Some ((1 + R y) * (1 + R (y + 1)) * (1 + R (y + 2)) - 1))) [lo + 1..hi - 2]"
    using Suc.hyps(1) [of "lo + 1"] Suc.hyps(2) by simp
  show ?case
  proof (cases "lo + 2 \<le> hi")
    case True
    then have u: "[lo..hi] = lo # (lo + 1) # (lo + 2) # [lo + 3..hi]"
      by (rule upto_three)
    have "[lo + 1..hi] = (lo + 1) # (lo + 1 + 1) # [lo + 1 + 2..hi]"
      using True by (intro upto_two) simp
    then have u1: "[lo + 1..hi] = (lo + 1) # (lo + 2) # [lo + 3..hi]"
      by (simp add: add.commute)
    have u2: "[lo..hi - 2] = lo # [lo + 1..hi - 2]"
      using True by (intro upto_rec1) simp
    have w: "rolling_windows (map (\<lambda>y. (y, R y)) (lo # (lo + 1) # (lo + 2) # [lo + 3..hi])) =
        (lo + 2, Some ((1 + R lo) * (1 + R (lo + 1)) * (1 + R (lo + 2)) - 1))
        # rolling_windows (map (\<lambda>y. (y, R y)) ((lo + 1) # (lo + 2) # [lo + 3..hi]))"
      by simp
    show ?thesis
      unfolding u u2 w using ih unfolding u1 by simp
  next
    case False
    then have e: "[lo..hi - 2] = []" by simp
    have "[lo..hi] = [lo] \<or> [lo..hi] = [lo, lo + 1]"
    proof (cases "lo + 1 \<le> hi")
      case True
      with False have "[lo + 2..hi] = []" by simp
      with upto_two [OF True] show ?thesis by simp
    next
      case False
      with le have "hi = lo" by simp
      then show ?thesis by simp
    qed
    then show ?thesis unfolding e by auto
  qed
qed

lemma min_row_unique:
  assumes "y0 \<in> set ys" and "\<forall>y \<in> set ys. y \<noteq> y0 \<longrightarrow> W y0 < W y"
  shows "min_row (map (\<lambda>y. (g y, Some (W y))) ys) = Some (g y0, W y0)"
  using assms
proof (induction ys)
  case Nil
  then show ?case by simp
next
  case (Cons y ys)
  show ?case
  proof (cases "y0 \<in> set ys")
    case True
    with Cons have ih: "min_row (map (\<lambda>y. (g y, Some (W y))) ys) = Some (g y0, W y0)" by simp
    show ?thesis
    proof (cases "y = y0")
      case True
      then show ?thesis using ih by simp
    next
      case False
      with Cons.prems have "W y0 < W y" by simp
      then show ?thesis using ih by simp
    qed
  next
    case False
    with Cons.prems have y: "y = y0" by simp
    have all: "\<forall>z \<in> set ys. W y0 < W z" using Cons.prems False by auto
    have "min_row (map (\<lambda>y. (g y, Some (W y))) ys) = None
        \<or> (\<exists>z \<in> set ys. min_row (map (\<lambda>y. (g y, Some (W y))) ys) = Some (g z, W z))"
    proof (induction ys)
      case Nil
      then show ?case by simp
    next
      case (Cons a ys)
      then show ?case by (auto split: option.splits)
    qed
    then show ?thesis using all y by (auto split: option.splits)
  qed
qed

text \<open>
  Claim C9. For a history whose years are the calendar years from \<open>lo\<close> to \<open>hi\<close>, none
  missing and at least three, and a year \<open>y0\<close> whose three-year window has a compounded
  return strictly below that of every other window of three consecutive years of the
  history, \<open>get_worst_3_years\<close> returns the monthly returns of the years \<open>y0\<close>,
  \<open>y0 + 1\<close> and \<open>y0 + 2\<close> in series order, the start year \<open>y0\<close>, and the compounded
  return of that window.
\<close>

theorem get_worst_3_years_window:
  assumes years: "set (map fst xs) = {lo..hi}"
    and y0: "y0 \<in> {lo..hi - 2}"
    and least: "\<forall>y \<in> {lo..hi - 2}. y \<noteq> y0 \<longrightarrow> window_return xs y0 < window_return xs y"
  shows "get_worst_3_years xs =
           Some (map snd (filter (\<lambda>e. y0 \<le> fst e \<and> fst e \<le> y0 + 2) xs), y0,
                 window_return xs y0)"
proof -
  let ?R = "annual_return_of xs"
  have rby: "returns_by_year xs = map (\<lambda>y. (y, ?R y)) [lo..hi]"
    by (rule returns_by_year_range [OF years])
  from y0 have three: "lo + 2 \<le> hi" by simp
  then have u: "[lo..hi] = lo # (lo + 1) # [lo + 2..hi]"
    by (intro upto_two) simp
  have win: "rolling_windows (returns_by_year xs) =
      map (\<lambda>y. (y + 2, Some (window_return xs y))) [lo..hi - 2]"
    unfolding rby rolling_windows_range window_return_def ..
  have m: "min_row (map (\<lambda>y. (y + 2, Some (window_return xs y))) [lo..hi - 2])
      = Some (y0 + 2, window_return xs y0)"
    by (rule min_row_unique) (use y0 least in simp_all)
  have row: "min_row (rolling_returns (returns_by_year xs)) = Some (y0 + 2, window_return xs y0)"
    unfolding rolling_returns_def win using m by (simp add: rby u)
  have f: "filter (\<lambda>e. y0 \<le> fst e \<and> fst e < 3 + y0) xs
      = filter (\<lambda>e. y0 \<le> fst e \<and> fst e \<le> y0 + 2) xs"
    by (rule filter_cong) auto
  show ?thesis
    by (simp add: get_worst_3_years_def Let_def series_idxmin_def series_min_def row f)
qed

theorem get_worst_3_years_window_witness:
  "set (map fst history) = {2000..2003} \<and> (2001 :: int) \<in> {2000..2003 - 2}
   \<and> window_return history 2000 = - 1 / 4 \<and> window_return history 2001 = - 1 / 2
   \<and> get_worst_3_years history = Some ([- 1 / 2, 0, 0, 0, - 1 / 2, 1], 2001, - 1 / 2)"
proof -
  have years: "set (map fst history) = {2000..2003}"
    by (auto simp: history_def)
  have y0: "(2001 :: int) \<in> {2000..2003 - 2}" by simp
  have w: "window_return history 2000 = - 1 / 4" "window_return history 2001 = - 1 / 2"
    by (simp_all add: window_return_def annual_return_of_def history_def)
  have r: "{2000..2003 - 2} = {2000, 2001 :: int}" by auto
  have least: "\<forall>y \<in> {2000..2003 - 2}. y \<noteq> 2001 \<longrightarrow>
      window_return history 2001 < window_return history y"
    unfolding r by (simp add: w)
  have sel: "map snd (filter (\<lambda>e. 2001 \<le> fst e \<and> fst e \<le> 2001 + 2) history)
      = [- 1 / 2, 0, 0, 0, - 1 / 2, 1]"
    by (simp add: history_def)
  from get_worst_3_years_window [OF years y0 least] years y0 w sel show ?thesis
    by simp
qed

end
